theory Spec2Isabelle
  imports Complex_Main
begin

section \<open>OrientJS: the tour controller of dist/orient.js\<close>

text \<open>
  The library is one constructor function \<open>Orient\<close> whose methods read and write the
  fields of the instance (\<open>self\<close>), the page (\<open>document\<close>) and the window. The model
  threads one record through every method: the instance's fields, the part of the page
  the methods touch, and a trace of the effects that leave the program (console output,
  scripts run, scroll requests).

  \<^item> DOM elements are objects with identity: they live in a store indexed by
    references, \<open>document.createElement\<close> allocates the next reference.
  \<^item> A JavaScript exception is the \<open>Inl\<close> branch of the result.
  \<^item> Pixel coordinates are JavaScript numbers; they are modelled as exact rationals.
  \<^item> The text of \<open>onEnd\<close> is an arbitrary script, run by \<open>new Function(text)()\<close> inside
    \<open>nextSlide\<close> and \<open>prevSlide\<close>. What it does is a parameter \<open>run\<close> of these methods:
    given the text and the state it returns the new state, or the exception that the
    script (or the parsing of its text) raises, which then leaves the method.
  \<^item> The text of \<open>onShow\<close> becomes a \<open>script\<close> element of the slide. The browser runs it
    when the slide enters the page; an exception in it does not reach the method that
    inserted the slide. The element is modelled, the run of this script is not.
  \<^item> \<open>buildSlide\<close> names its click handlers through the global \<open>orient\<close>; as the
    README prescribes, that global is the instance itself.
  \<^item> \<open>document.querySelector\<close> is the page's answer to a selector, a field of the state:
    an element, \<open>null\<close>, or the SyntaxError that the browser raises for a string that
    is not a selector.
  \<^item> The class attribute of an element is kept as its list of tokens.

  Modelled are the navigation methods (\<open>startFlow\<close>, \<open>nextSlide\<close>, \<open>prevSlide\<close>,
  \<open>jumpToSlide\<close>, \<open>stopFlow\<close>, \<open>setFlowURL\<close>), rendering (\<open>buildSlide\<close>,
  \<open>createElement\<close>, \<open>insertSlide\<close>) and positioning (\<open>positionSlide\<close>,
  \<open>getElAbsolutePosition\<close>, \<open>removeAttachedTargetStyles\<close>). Fetching and parsing the
  FlowFile (\<open>loadFlow\<close>, \<open>httpGet\<close>, \<open>flowLoaded\<close>, \<open>flowError\<close>), the constructor's
  reading of its options and the key handler are not: a state holds the options and the
  loaded flow as fields.
\<close>

subsection \<open>Flow data (the parsed FlowFile)\<close>

record media =
  m_type :: "string option"
  m_url :: "string option"
  m_muted :: "bool option"
  m_loop :: "bool option"
  m_controls :: "bool option"
  m_autoplay :: "bool option"

record slide =
  title :: string
  body :: string
  style :: string
  target :: "string option"
  media :: "media option"
  extraClasses :: "string list option"
  onShow :: "string option"
  onEnd :: "string option"

text \<open>JavaScript truthiness of an optional string: \<open>undefined\<close> and \<open>""\<close> are falsy.\<close>

definition truthy :: "string option \<Rightarrow> bool" where
  "truthy s = (case s of None \<Rightarrow> False | Some v \<Rightarrow> v \<noteq> [])"

subsection \<open>Page elements\<close>

type_synonym ref = nat

datatype handler = StopFlow | PrevSlide | NextSlide

datatype cssval = Px rat | Raw string

record rect =
  r_left :: rat
  r_right :: rat
  r_top :: rat
  r_bottom :: rat
  r_height :: rat
  r_width :: rat

text \<open>
  An element: its tag, the tokens of its class attribute, its inline style (property to
  value; empty when there is no style attribute), text or HTML content, listeners,
  children, the media properties \<open>buildSlide\<close> sets, and where the page lays it out
  (left and top in document coordinates, width, height).
\<close>

record element =
  tagName :: string
  classList :: "string list"
  estyle :: "string \<rightharpoonup> cssval"
  innerText :: "string option"
  innerHTML :: "string option"
  listeners :: "(string \<times> handler) list"
  children :: "ref list"
  src :: "string option"
  muted :: "bool option"
  loop :: "bool option"
  controls :: "bool option"
  autoplay :: "bool option"
  box_left :: rat
  box_top :: rat
  box_width :: rat
  box_height :: rat

definition blank :: "string \<Rightarrow> element" where
  "blank t = \<lparr> tagName = t, classList = [], estyle = Map.empty, innerText = None,
     innerHTML = None, listeners = [], children = [], src = None, muted = None,
     loop = None, controls = None, autoplay = None,
     box_left = 0, box_top = 0, box_width = 0, box_height = 0 \<rparr>"

subsection \<open>Effects, errors and the state\<close>

datatype diag =
    SlideNumberRange nat
  | AtStartOfFlow
  | MediaTypeBad
  | MediaUrlMissing nat
  | CouldNotAttach string

datatype effect =
    ConsoleError diag
  | ConsoleLog diag
  | RunScript string
  | ScrollTo rat rat

datatype error = TypeError | NotFoundError | SyntaxError | Uncaught string

record buttons =
  b_next :: "string option"
  b_prev :: "string option"
  b_exit :: "string option"

record state =
  flowURL :: string
  flowData :: "slide list"
  activeSlideIndex :: "nat option"
  activeSlideEl :: "ref option"
  slideEl :: "ref option"
  attachTargetEl :: "ref option"
  autoScroll :: bool
  cssPrefix :: "string option"
  buttonHtml :: buttons
  clickOverlayClosesTour :: bool
  overlay :: bool
  heap :: "ref \<Rightarrow> element"
  nextRef :: ref
  bodyChildren :: "ref list"
  querySelector :: "string \<Rightarrow> error + ref option"
  innerWidth :: rat
  innerHeight :: rat
  pageXOffset :: rat
  pageYOffset :: rat
  hasScrollXY :: bool
  keydownBound :: bool
  trace :: "effect list"

definition thenDo :: "error + 'a \<Rightarrow> ('a \<Rightarrow> error + 'b) \<Rightarrow> error + 'b" where
  "thenDo r f = (case r of Inl e \<Rightarrow> Inl e | Inr x \<Rightarrow> f x)"

definition emit :: "effect \<Rightarrow> state \<Rightarrow> state" where
  "emit e st = st\<lparr>trace := trace st @ [e]\<rparr>"

definition modify :: "ref \<Rightarrow> (element \<Rightarrow> element) \<Rightarrow> state \<Rightarrow> state" where
  "modify r f st = st\<lparr>heap := (heap st)(r := f (heap st r))\<rparr>"

text \<open>\<open>self.flowData[self.activeSlideIndex]\<close>; \<open>None\<close> is JavaScript's \<open>undefined\<close>.\<close>

definition currentSlide :: "state \<Rightarrow> slide option" where
  "currentSlide st =
     (case activeSlideIndex st of
        None \<Rightarrow> None
      | Some i \<Rightarrow> if i < length (flowData st) then Some (flowData st ! i) else None)"

subsection \<open>The browser's operations\<close>

text \<open>\<open>document.createElement(type)\<close>: a new element at the next reference.\<close>

definition docCreateElement :: "string \<Rightarrow> state \<Rightarrow> ref \<times> state" where
  "docCreateElement t st =
     (nextRef st,
      st\<lparr>heap := (heap st)(nextRef st := blank t), nextRef := Suc (nextRef st)\<rparr>)"

text \<open>
  \<open>parent.appendChild(child)\<close> on an element that \<open>buildSlide\<close> has just made; an
  \<open>undefined\<close> child is a TypeError.
\<close>

definition appendChild :: "ref \<Rightarrow> ref option \<Rightarrow> state \<Rightarrow> error + state" where
  "appendChild p c st =
     (case c of
        None \<Rightarrow> Inl TypeError
      | Some k \<Rightarrow> Inr (modify p (\<lambda>e. e\<lparr>children := children e @ [k]\<rparr>) st))"

text \<open>
  \<open>document.body.removeChild(el)\<close>: a TypeError for \<open>null\<close> or \<open>undefined\<close>, a
  NotFoundError for an element that is not a child of the body.
\<close>

definition removeChild :: "ref option \<Rightarrow> state \<Rightarrow> error + state" where
  "removeChild c st =
     (case c of
        None \<Rightarrow> Inl TypeError
      | Some k \<Rightarrow>
          if k \<in> set (bodyChildren st)
          then Inr (st\<lparr>bodyChildren := filter (\<lambda>x. x \<noteq> k) (bodyChildren st)\<rparr>)
          else Inl NotFoundError)"

text \<open>\<open>el.classList.add(token)\<close> and \<open>el.classList.remove(token)\<close>.\<close>

definition classAdd :: "string \<Rightarrow> element \<Rightarrow> element" where
  "classAdd t e = (if t \<in> set (classList e) then e else e\<lparr>classList := classList e @ [t]\<rparr>)"

definition classRemove :: "string \<Rightarrow> element \<Rightarrow> element" where
  "classRemove t e = e\<lparr>classList := filter (\<lambda>x. x \<noteq> t) (classList e)\<rparr>"

definition setStyle :: "string \<Rightarrow> cssval \<Rightarrow> element \<Rightarrow> element" where
  "setStyle p v e = e\<lparr>estyle := (estyle e)(p \<mapsto> v)\<rparr>"

text \<open>
  \<open>el.getBoundingClientRect()\<close>: the element's box relative to the viewport, that is,
  its place in the document less the page's scroll offset.
\<close>

definition getBoundingClientRect :: "state \<Rightarrow> ref \<Rightarrow> rect" where
  "getBoundingClientRect st r =
     (let e = heap st r;
          l = box_left e - pageXOffset st;
          t = box_top e - pageYOffset st
      in \<lparr> r_left = l, r_right = l + box_width e, r_top = t, r_bottom = t + box_height e,
           r_height = box_height e, r_width = box_width e \<rparr>)"

text \<open>
  \<open>window.scrollX\<close> and \<open>window.scrollY\<close> alias the page offsets where the browser has
  them (Internet Explorer does not: \<open>None\<close>).
\<close>

definition scrollX :: "state \<Rightarrow> rat option" where
  "scrollX st = (if hasScrollXY st then Some (pageXOffset st) else None)"

definition scrollY :: "state \<Rightarrow> rat option" where
  "scrollY st = (if hasScrollXY st then Some (pageYOffset st) else None)"

definition truthyNum :: "rat option \<Rightarrow> bool" where
  "truthyNum v = (case v of None \<Rightarrow> False | Some x \<Rightarrow> x \<noteq> 0)"

text \<open>
  \<open>window.scrollTo(x, y)\<close>: the request is recorded and the page takes the offsets (the
  document is taken to be large enough to scroll that far).
\<close>

definition scrollTo :: "rat \<Rightarrow> rat \<Rightarrow> state \<Rightarrow> state" where
  "scrollTo x y st = emit (ScrollTo x y) (st\<lparr>pageXOffset := x, pageYOffset := y\<rparr>)"

subsection \<open>Building elements: \<open>createElement\<close>\<close>

record elOptions =
  o_type :: string
  o_className :: "string list"
  o_text :: "string option"
  o_html :: "string option"
  o_events :: "(string \<times> handler option) list"

text \<open>\<open>el.addEventListener(name, h)\<close>; a \<open>null\<close> listener is ignored by the browser.\<close>

definition addEventListener :: "ref \<Rightarrow> string \<times> handler option \<Rightarrow> state \<Rightarrow> state" where
  "addEventListener r ev st =
     (case snd ev of
        None \<Rightarrow> st
      | Some h \<Rightarrow> modify r (\<lambda>e. e\<lparr>listeners := listeners e @ [(fst ev, h)]\<rparr>) st)"

definition createElement :: "elOptions \<Rightarrow> state \<Rightarrow> ref \<times> state" where
  "createElement opts st =
     (let (r, s1) = docCreateElement (o_type opts) st;
          s2 = (if o_className opts \<noteq> []
                then modify r (\<lambda>e. e\<lparr>classList := o_className opts\<rparr>) s1 else s1);
          s3 = (if truthy (o_text opts) then modify r (\<lambda>e. e\<lparr>innerText := o_text opts\<rparr>) s2
                else if truthy (o_html opts) then modify r (\<lambda>e. e\<lparr>innerHTML := o_html opts\<rparr>) s2
                else s2);
          s4 = foldl (\<lambda>s ev. addEventListener r ev s) s3 (o_events opts)
      in (r, s4))"

text \<open>The recurring \<open>parent.appendChild(this.createElement({...}))\<close>.\<close>

definition appendNew :: "ref \<Rightarrow> elOptions \<Rightarrow> state \<Rightarrow> state" where
  "appendNew p opts st =
     (let (c, s1) = createElement opts st
      in modify p (\<lambda>e. e\<lparr>children := children e @ [c]\<rparr>) s1)"

definition divOf :: "string list \<Rightarrow> elOptions" where
  "divOf cls = \<lparr> o_type = ''div'', o_className = cls, o_text = None, o_html = None,
     o_events = [] \<rparr>"

text \<open>\<open>a || b\<close> on an optional string and a default.\<close>

definition orElse :: "string option \<Rightarrow> string \<Rightarrow> string" where
  "orElse a b = (case a of None \<Rightarrow> b | Some v \<Rightarrow> if v \<noteq> [] then v else b)"

subsection \<open>Positioning a floating slide\<close>

definition getElAbsolutePosition :: "state \<Rightarrow> ref \<Rightarrow> rect" where
  "getElAbsolutePosition st el =
     (let rc = getBoundingClientRect st el;
          sxy = (if truthyNum (scrollX st) \<and> truthyNum (scrollY st)
                 then (case (scrollX st, scrollY st) of
                         (Some x, Some y) \<Rightarrow> (x, y)
                       | _ \<Rightarrow> (pageXOffset st, pageYOffset st))
                 else (pageXOffset st, pageYOffset st))
      in \<lparr> r_left = r_left rc + fst sxy, r_right = r_right rc + fst sxy,
           r_top = r_top rc + snd sxy, r_bottom = r_bottom rc + snd sxy,
           r_height = r_height rc, r_width = r_width rc \<rparr>)"

text \<open>The selector \<open>[data-orient-target='...']\<close> built for a target without \<open>#\<close> or \<open>.\<close>.\<close>

definition dataSelector :: "string \<Rightarrow> string" where
  "dataSelector t = ''[data-orient-target='' @ [CHR 0x27] @ t @ [CHR 0x27] @ '']''"

text \<open>
  The lookup of the target: a selector that starts with \<open>#\<close> or \<open>.\<close> goes to
  \<open>document.querySelector\<close> as it is, anything else as a \<open>data-orient-target\<close> value.
\<close>

definition resolveTarget :: "state \<Rightarrow> string \<Rightarrow> error + ref option" where
  "resolveTarget st attachTarget =
     (if take 1 attachTarget = ''#'' \<or> take 1 attachTarget = ''.''
      then querySelector st attachTarget
      else querySelector st (dataSelector attachTarget))"

definition positionSlide :: "state \<Rightarrow> error + state" where
  "positionSlide st =
     (case currentSlide st of
        None \<Rightarrow> Inl TypeError
      | Some d \<Rightarrow>
         (case target d of
            None \<Rightarrow> Inr st
          | Some attachTarget \<Rightarrow>
             if attachTarget = [] then Inr st
             else
               thenDo (resolveTarget st attachTarget)
                 (\<lambda>q.
                   let s1 = st\<lparr>attachTargetEl := q\<rparr>
                   in (case q of
                         None \<Rightarrow>
                           (case slideEl s1 of
                              None \<Rightarrow> Inl TypeError
                            | Some sl \<Rightarrow>
                                Inr (modify sl (setStyle ''left'' (Px 0))
                                      (modify sl (setStyle ''top'' (Px 0))
                                        (emit (ConsoleError (CouldNotAttach attachTarget)) s1))))
                       | Some t \<Rightarrow>
                           (case slideEl s1 of
                              None \<Rightarrow> Inl TypeError
                            | Some sl \<Rightarrow>
                                let s2 = modify t (classAdd ''orient-target-el'') s1;
                                    boundingRect = getElAbsolutePosition s2 t;
                                    s3 = (if r_left boundingRect + 360 > innerWidth s2
                                          then modify sl
                                                 (setStyle ''right''
                                                    (Px (innerWidth s2 - r_right boundingRect)))
                                                 (modify sl
                                                    (classAdd ''orient-slide--aligned-right'') s2)
                                          else modify sl
                                                 (setStyle ''left'' (Px (r_left boundingRect))) s2);
                                    s4 = modify sl
                                           (setStyle ''top''
                                              (Px (r_top boundingRect + r_height boundingRect)))
                                           s3
                                in if autoScroll s4
                                   then
                                     let y = (r_top boundingRect + r_height boundingRect)
                                               - innerHeight s4 / 2;
                                         y' = (if y < 0 then 0 else y)
                                     in Inr (scrollTo 0 y' s4)
                                   else Inr s4)))))"

definition removeAttachedTargetStyles :: "state \<Rightarrow> state" where
  "removeAttachedTargetStyles st =
     (case attachTargetEl st of
        None \<Rightarrow> st
      | Some t \<Rightarrow>
          modify t (classRemove ''orient-target-el'')
            (modify t (\<lambda>e. e\<lparr>estyle := Map.empty\<rparr>) st))"

subsection \<open>Rendering: \<open>buildSlide\<close> and \<open>insertSlide\<close>\<close>

text \<open>The media block of \<open>buildSlide\<close> (the slide \<open>d\<close> at index \<open>i\<close>, the slide element \<open>sl\<close>).\<close>

definition buildMedia :: "slide \<Rightarrow> nat \<Rightarrow> ref \<Rightarrow> state \<Rightarrow> error + state" where
  "buildMedia d i sl st =
     (case media d of
        None \<Rightarrow> Inr st
      | Some m \<Rightarrow>
          let (slideMediaWrapperEl, s1) = createElement (divOf [''orient-slide__media'']) st;
              (slideMediaEl, s2) =
                (if m_type m = Some ''video''
                 then
                   let (v, sv) = docCreateElement ''video'' s1
                   in (Some v,
                       modify v (\<lambda>e. e\<lparr>
                         muted := Some (case m_muted m of None \<Rightarrow> True | Some b \<Rightarrow> b),
                         loop := Some (case m_loop m of None \<Rightarrow> True | Some b \<Rightarrow> b),
                         controls := Some (case m_controls m of None \<Rightarrow> False | Some b \<Rightarrow> b),
                         autoplay := Some (case m_autoplay m of None \<Rightarrow> True | Some b \<Rightarrow> b)\<rparr>) sv)
                 else if m_type m = Some ''image''
                 then (let (g, sg) = docCreateElement ''img'' s1 in (Some g, sg))
                 else (None, s1));
              s3 = (if slideMediaEl = None then emit (ConsoleError MediaTypeBad) s2 else s2)
          in thenDo
               (if truthy (m_url m)
                then (case slideMediaEl of
                        None \<Rightarrow> Inl TypeError
                      | Some e \<Rightarrow> Inr (modify e (\<lambda>x. x\<lparr>src := m_url m\<rparr>) s3))
                else Inr (emit (ConsoleError (MediaUrlMissing (i + 1))) s3))
               (\<lambda>s4. thenDo (appendChild slideMediaWrapperEl slideMediaEl s4)
                 (\<lambda>s5. appendChild sl (Some slideMediaWrapperEl) s5)))"

text \<open>
  The head of \<open>buildSlide\<close>: the slide element is made, kept in \<open>this.slideEl\<close>, and
  given the slide's extra classes in their order.
\<close>

definition buildShell :: "slide \<Rightarrow> state \<Rightarrow> ref \<times> state" where
  "buildShell flowSlideData st =
     (let (sl, s0) = createElement
            (divOf [''animated'', ''fadeInDown'', ''orient-slide'',
                    ''orient-slide--'' @ style flowSlideData]) st;
          s1 = s0\<lparr>slideEl := Some sl\<rparr>;
          s2 = (case extraClasses flowSlideData of
                  None \<Rightarrow> s1
                | Some cs \<Rightarrow>
                    if length cs > 0
                    then modify sl (\<lambda>e. e\<lparr>classList := classList e @ cs\<rparr>) s1
                    else s1)
      in (sl, s2))"

text \<open>
  The rest of \<open>buildSlide\<close>, after the media block, in the source's order and in four
  parts: the text wrapper with title and body; the button row (exit always, previous
  after the first slide, next before the last); the content wrapper, put into the slide
  element, and the \<open>onShow\<close> script; the wrapper with the overlay, which is the result.
\<close>

definition buildText :: "slide \<Rightarrow> state \<Rightarrow> ref \<times> state" where
  "buildText flowSlideData s4 =
     (let (textWrapperEl, s5) =
            createElement (divOf [''orient-slide__text-wrapper'']) s4;
          s6 = appendNew textWrapperEl
                 ((divOf [''orient-slide__title''])
                    \<lparr>o_text := Some (title flowSlideData)\<rparr>) s5;
          s7 = appendNew textWrapperEl
                 ((divOf [''orient-slide__body''])
                    \<lparr>o_text := Some (body flowSlideData)\<rparr>) s6
      in (textWrapperEl, s7))"

definition buildButtons :: "nat \<Rightarrow> state \<Rightarrow> ref \<times> state" where
  "buildButtons i s7 =
     (let (buttonWrapperEl, s8) =
            createElement (divOf [''orient-slide__button-wrapper'']) s7;
          s9 = appendNew buttonWrapperEl
                 ((divOf [''orient-slide__button'', ''orient-slide__close-button''])
                    \<lparr>o_html := Some (orElse (b_exit (buttonHtml s7)) ''Exit''),
                     o_events := [(''click'', Some StopFlow)]\<rparr>) s8;
          s10 = (if i > 0
                 then appendNew buttonWrapperEl
                   ((divOf [''orient-slide__button'', ''orient-slide__prev-button''])
                      \<lparr>o_html := Some (orElse (b_prev (buttonHtml s7)) ''Prev''),
                       o_events := [(''click'', Some PrevSlide)]\<rparr>) s9
                 else s9);
          s11 = (if int i < int (length (flowData s7)) - 1
                 then appendNew buttonWrapperEl
                   ((divOf [''orient-slide__button'', ''orient-slide__next-button''])
                      \<lparr>o_html := Some (orElse (b_next (buttonHtml s7)) ''Next''),
                       o_events := [(''click'', Some NextSlide)]\<rparr>) s10
                 else s10)
      in (buttonWrapperEl, s11))"

definition buildBody :: "slide \<Rightarrow> ref \<Rightarrow> ref \<Rightarrow> ref \<Rightarrow> state \<Rightarrow> state" where
  "buildBody flowSlideData sl textWrapperEl buttonWrapperEl s11 =
     (let (slideContentWrapperEl, s12) =
            createElement (divOf [''orient-slide__content'']) s11;
          s13 = modify slideContentWrapperEl
                  (\<lambda>e. e\<lparr>children := children e @ [textWrapperEl]\<rparr>) s12;
          s14 = modify slideContentWrapperEl
                  (\<lambda>e. e\<lparr>children := children e @ [buttonWrapperEl]\<rparr>) s13;
          s15 = modify sl
                  (\<lambda>e. e\<lparr>children := children e @ [slideContentWrapperEl]\<rparr>) s14
      in if truthy (onShow flowSlideData)
         then appendNew sl
                \<lparr> o_type = ''script'', o_className = [], o_text = None,
                   o_html = onShow flowSlideData, o_events = [] \<rparr> s15
         else s15)"

definition buildWrapper :: "ref \<Rightarrow> state \<Rightarrow> ref \<times> state" where
  "buildWrapper sl s16 =
     (let (slideWrapperEl, s17) =
            createElement
              (divOf ((if truthy (cssPrefix s16) then [orElse (cssPrefix s16) []] else [])
                      @ [''orient-slide-wrapper''])) s16;
          s18 = (if overlay s16
                 then appendNew slideWrapperEl
                   ((divOf [''orient-slide__overlay''])
                      \<lparr>o_events :=
                         [(''click'',
                           if clickOverlayClosesTour s16 then Some StopFlow else None)]\<rparr>) s17
                 else s17);
          s19 = modify slideWrapperEl (\<lambda>e. e\<lparr>children := children e @ [sl]\<rparr>) s18
      in (slideWrapperEl, s19))"

definition buildContent :: "slide \<Rightarrow> nat \<Rightarrow> ref \<Rightarrow> state \<Rightarrow> ref \<times> state" where
  "buildContent flowSlideData i sl s4 =
     (let (textWrapperEl, s7) = buildText flowSlideData s4;
          (buttonWrapperEl, s11) = buildButtons i s7;
          s16 = buildBody flowSlideData sl textWrapperEl buttonWrapperEl s11
      in buildWrapper sl s16)"

text \<open>
  \<open>buildSlide\<close>: the head, the positioning of a float slide (with \<open>attachTargetEl\<close>
  reset first), the media block, the rest. Reading a field of
  \<open>flowData[activeSlideIndex]\<close> when there is no such slide is a TypeError.
\<close>

definition buildSlide :: "state \<Rightarrow> error + (ref \<times> state)" where
  "buildSlide st =
     (case currentSlide st of
        None \<Rightarrow> Inl TypeError
      | Some flowSlideData \<Rightarrow>
         (case activeSlideIndex st of
            None \<Rightarrow> Inl TypeError
          | Some i \<Rightarrow>
             let (sl, s2) = buildShell flowSlideData st
             in thenDo
                  (if style flowSlideData = ''float''
                   then positionSlide (s2\<lparr>attachTargetEl := None\<rparr>) else Inr s2)
                  (\<lambda>s3. thenDo (buildMedia flowSlideData i sl s3)
                    (\<lambda>s4. Inr (buildContent flowSlideData i sl s4)))))"

text \<open>\<open>document.body.appendChild(this.activeSlideEl)\<close>.\<close>

definition insertSlide :: "state \<Rightarrow> error + state" where
  "insertSlide st =
     (case activeSlideEl st of
        None \<Rightarrow> Inl TypeError
      | Some k \<Rightarrow>
          Inr (st\<lparr>bodyChildren := filter (\<lambda>x. x \<noteq> k) (bodyChildren st) @ [k]\<rparr>))"

text \<open>\<open>this.activeSlideEl = this.buildSlide(); this.insertSlide();\<close>\<close>

definition render :: "state \<Rightarrow> error + state" where
  "render st =
     thenDo (buildSlide st) (\<lambda>(w, s1). insertSlide (s1\<lparr>activeSlideEl := Some w\<rparr>))"

subsection \<open>Navigation\<close>

definition stopFlow :: "state \<Rightarrow> error + state" where
  "stopFlow st =
     thenDo
       (if activeSlideEl st \<noteq> None
        then thenDo (removeChild (activeSlideEl st) st)
               (\<lambda>s1. Inr (removeAttachedTargetStyles s1))
        else Inr st)
       (\<lambda>s2. Inr (s2\<lparr>activeSlideEl := None, activeSlideIndex := None,
                       keydownBound := False\<rparr>))"

definition setFlowURL :: "string \<Rightarrow> state \<Rightarrow> error + state" where
  "setFlowURL newURL st = thenDo (stopFlow st) (\<lambda>s1. Inr (s1\<lparr>flowURL := newURL\<rparr>))"

text \<open>
  \<open>if (flowData[activeSlideIndex].onEnd) { new Function(...)() }\<close>: a TypeError when there
  is no such slide; otherwise, for a non-empty text, the script is run: the trace gets its
  entry and \<open>run\<close> gives the state the script leaves or the exception it raises.
\<close>

type_synonym scripts = "string \<Rightarrow> state \<Rightarrow> error + state"

definition runOnEnd :: "scripts \<Rightarrow> state \<Rightarrow> error + state" where
  "runOnEnd run st =
     (case currentSlide st of
        None \<Rightarrow> Inl TypeError
      | Some d \<Rightarrow>
         (case onEnd d of
            None \<Rightarrow> Inr st
          | Some code \<Rightarrow>
              if code \<noteq> [] then run code (emit (RunScript code) st) else Inr st))"

definition startFlow :: "state \<Rightarrow> error + state" where
  "startFlow st = render (st\<lparr>activeSlideIndex := Some 0\<rparr>)"

text \<open>
  \<open>self.activeSlideIndex++\<close> on \<open>null\<close> gives 1, and \<open>null > 0\<close> is false (a script can
  have stopped the flow).
\<close>

definition nextSlide :: "scripts \<Rightarrow> state \<Rightarrow> error + state" where
  "nextSlide run st =
     thenDo (removeChild (activeSlideEl st) st)
       (\<lambda>s1. thenDo (runOnEnd run (removeAttachedTargetStyles s1))
         (\<lambda>s2. let i' = (case activeSlideIndex s2 of None \<Rightarrow> 1 | Some i \<Rightarrow> i + 1);
                    s3 = s2\<lparr>activeSlideIndex := Some i'\<rparr>
                in if int i' > int (length (flowData s3)) - 1
                   then stopFlow (s3\<lparr>activeSlideEl := None\<rparr>)
                   else render s3))"

definition prevSlide :: "scripts \<Rightarrow> state \<Rightarrow> error + state" where
  "prevSlide run st =
     thenDo (runOnEnd run st)
       (\<lambda>s1. case activeSlideIndex s1 of
                None \<Rightarrow> Inr (emit (ConsoleLog AtStartOfFlow) s1)
              | Some i \<Rightarrow>
                  if i > 0
                  then thenDo (removeChild (activeSlideEl s1) s1)
                         (\<lambda>s2. render
                                  ((removeAttachedTargetStyles s2)
                                     \<lparr>activeSlideIndex := Some (i - 1)\<rparr>))
                  else Inr (emit (ConsoleLog AtStartOfFlow) s1))"

definition jumpToSlide :: "int \<Rightarrow> state \<Rightarrow> error + state" where
  "jumpToSlide slideNo st =
     (if slideNo < 1 \<or> slideNo > int (length (flowData st))
      then Inr (emit (ConsoleError (SlideNumberRange (length (flowData st)))) st)
      else thenDo (removeChild (activeSlideEl st) st)
             (\<lambda>s1. render (s1\<lparr>activeSlideIndex := Some (nat (slideNo - 1))\<rparr>)))"

section \<open>Properties of the tour controller\<close>

subsection \<open>Notions used in the statements\<close>

text \<open>
  What a method leaves alone. \<open>frame\<close> forgets the element store and the allocator: two
  states with the same frame differ in their elements only. \<open>ctl\<close> is the part of the
  state that building and positioning a slide never write: the flow, the index, the
  rendered element, the children of the body, the options, and the window's size.
\<close>

definition frame :: "state \<Rightarrow> state" where
  "frame st = st\<lparr>heap := (\<lambda>_. blank []), nextRef := 0\<rparr>"

definition ctl ::
  "state \<Rightarrow> string \<times> slide list \<times> nat option \<times> ref option \<times> ref list
     \<times> (bool \<times> string option \<times> buttons \<times> bool \<times> bool)
     \<times> ((string \<Rightarrow> error + ref option) \<times> rat \<times> rat \<times> bool \<times> bool)" where
  "ctl st = (flowURL st, flowData st, activeSlideIndex st, activeSlideEl st, bodyChildren st,
     (autoScroll st, cssPrefix st, buttonHtml st, clickOverlayClosesTour st, overlay st),
     (querySelector st, innerWidth st, innerHeight st, hasScrollXY st, keydownBound st))"

text \<open>The scripts (\<open>onEnd\<close> callbacks) that a trace says were run, in order.\<close>

definition scriptRuns :: "effect list \<Rightarrow> string list" where
  "scriptRuns tr = concat (map (\<lambda>e. case e of RunScript x \<Rightarrow> [x] | _ \<Rightarrow> []) tr)"

text \<open>
  A slide as the FlowFile reference describes it: its media object, when it has one, is
  of type \<open>video\<close> or \<open>image\<close>.
\<close>

definition wfSlide :: "slide \<Rightarrow> bool" where
  "wfSlide d = (case media d of None \<Rightarrow> True
     | Some m \<Rightarrow> m_type m = Some ''video'' \<or> m_type m = Some ''image'')"

text \<open>Reading a result: the error, or an observation of the final state.\<close>

definition observe :: "(state \<Rightarrow> 'a) \<Rightarrow> error + state \<Rightarrow> error + 'a" where
  "observe f r = (case r of Inl e \<Rightarrow> Inl e | Inr s \<Rightarrow> Inr (f s))"

text \<open>
  The selector of a slide is one the page accepts: a float slide with a non-empty target
  is given a string for which \<open>document.querySelector\<close> answers (an element or \<open>null\<close>)
  and does not raise. A valid slide has a known media type and such a selector.
\<close>

definition selectorOk :: "state \<Rightarrow> slide \<Rightarrow> bool" where
  "selectorOk st d =
     (if style d = ''float''
      then (case target d of
              None \<Rightarrow> True
            | Some t \<Rightarrow>
                if t = [] then True
                else (case resolveTarget st t of Inl _ \<Rightarrow> False | Inr _ \<Rightarrow> True))
      else True)"

definition validSlide :: "state \<Rightarrow> slide \<Rightarrow> bool" where
  "validSlide st d = (wfSlide d \<and> selectorOk st d)"

text \<open>
  The \<open>onEnd\<close> script of a slide, where it has one, returns and leaves the tour and the
  page as they are, whenever it is run.
\<close>

definition leavesAlone :: "scripts \<Rightarrow> slide \<Rightarrow> bool" where
  "leavesAlone run d =
     (case onEnd d of
        None \<Rightarrow> True
      | Some c \<Rightarrow> if c = [] then True else (\<forall>s. run c s = Inr s))"

text \<open>A page on which every script returns at once, and one on which every script throws.\<close>

definition quiet :: scripts where
  "quiet c st = Inr st"

definition throwing :: scripts where
  "throwing c st = Inl (Uncaught c)"


subsection \<open>A small page and flow for the concrete cases\<close>

text \<open>
  A page whose body holds one heading, reachable as \<open>#hero\<close> and laid out at left 100,
  top 50, 80 wide and 20 high; a two-slide flow, a float slide on that heading and a modal
  slide; and an instance with the default options on which the flow is loaded and no tour
  runs.
\<close>

definition heroEl :: element where
  "heroEl = (blank ''h1'')\<lparr>classList := [''hero''], box_left := 100, box_top := 50,
     box_width := 80, box_height := 20\<rparr>"

definition floatSlide :: slide where
  "floatSlide = \<lparr> title = ''Welcome'', body = ''Start here'', style = ''float'',
     target = Some ''#hero'', media = None, extraClasses = None, onShow = None,
     onEnd = None \<rparr>"

definition modalSlide :: slide where
  "modalSlide = \<lparr> title = ''Done'', body = ''That is all'', style = ''modal'',
     target = None, media = None, extraClasses = None, onShow = None,
     onEnd = Some ''window.tourDone = true'' \<rparr>"

definition idlePage :: state where
  "idlePage = \<lparr> flowURL = ''flows/demo.json'', flowData = [floatSlide, modalSlide],
     activeSlideIndex = None, activeSlideEl = None, slideEl = None, attachTargetEl = None,
     autoScroll = True, cssPrefix = None,
     buttonHtml = \<lparr>b_next = None, b_prev = None, b_exit = None\<rparr>,
     clickOverlayClosesTour = False, overlay = True,
     heap = (\<lambda>_. blank [])(0 := heroEl), nextRef = 1, bodyChildren = [0],
     querySelector = (\<lambda>_. Inr None)(''#hero'' := Inr (Some 0)),
     innerWidth = 1200, innerHeight = 800, pageXOffset = 0, pageYOffset = 0,
     hasScrollXY = True, keydownBound = False, trace = [] \<rparr>"

text \<open>
  The state in which \<open>startFlow\<close> calls \<open>positionSlide\<close> for the first slide of a
  page's flow: index 0, the slide element just made, no target attached yet.
\<close>

definition atPositioning :: "state \<Rightarrow> state" where
  "atPositioning st =
     (snd (buildShell (flowData st ! 0) (st\<lparr>activeSlideIndex := Some 0\<rparr>)))
       \<lparr>attachTargetEl := None\<rparr>"

text \<open>
  Variants of the page: with window width \<open>W\<close>, scrolled sideways by \<open>X\<close> and the heading
  at top \<open>T\<close>; with a float slide that has no target; with one whose target is not on
  the page.
\<close>

definition heroPage :: "rat \<Rightarrow> rat \<Rightarrow> rat \<Rightarrow> state" where
  "heroPage W X T = idlePage\<lparr>innerWidth := W, pageXOffset := X,
     heap := (heap idlePage)(0 := heroEl\<lparr>box_top := T\<rparr>)\<rparr>"

definition barePage :: state where
  "barePage = idlePage\<lparr>flowData := [floatSlide\<lparr>target := None\<rparr>]\<rparr>"

definition lostPage :: state where
  "lostPage = idlePage\<lparr>flowData := [floatSlide\<lparr>target := Some ''#gone''\<rparr>]\<rparr>"

subsection \<open>What a rendered element shows\<close>

text \<open>
  The tree under an element, read from the store down to a depth: each node is the
  element (its own child list left out) with the trees of its children.
\<close>

datatype dom = Dom element "dom list"

fun view :: "nat \<Rightarrow> (ref \<Rightarrow> element) \<Rightarrow> ref \<Rightarrow> dom" where
  "view 0 h r = Dom ((h r)\<lparr>children := []\<rparr>) []"
| "view (Suc n) h r = Dom ((h r)\<lparr>children := []\<rparr>) (map (view n h) (children (h r)))"

text \<open>
  The rendering of a slide as the specification describes it: a wrapper with the overlay
  (if enabled) and the slide body; the slide body holds the optional media block (an
  image or a video with the defaults muted, loop and autoplay on, controls off; the
  source only when a URL is given), the content with title and body text and the button
  row (exit always, previous iff the index is above 0, next iff it is below the last),
  and the \<open>onShow\<close> script if there is one. Custom classes follow the slide's own classes
  in their order. Texts go to \<open>innerText\<close>, HTML to \<open>innerHTML\<close>; an empty text is not set.
\<close>

definition node ::
  "string \<Rightarrow> string list \<Rightarrow> string option \<Rightarrow> string option \<Rightarrow> (string \<times> handler) list
     \<Rightarrow> element" where
  "node t cls tx ht ls =
     (blank t)\<lparr>classList := cls, innerText := tx, innerHTML := ht, listeners := ls\<rparr>"

definition textOf :: "string \<Rightarrow> string option" where
  "textOf t = (if t \<noteq> [] then Some t else None)"

definition shellClasses :: "slide \<Rightarrow> string list" where
  "shellClasses d =
     [''animated'', ''fadeInDown'', ''orient-slide'', ''orient-slide--'' @ style d]
     @ (case extraClasses d of None \<Rightarrow> [] | Some cs \<Rightarrow> cs)"

definition mediaEl :: "media \<Rightarrow> element" where
  "mediaEl m =
     (let source = (if truthy (m_url m) then m_url m else None)
      in if m_type m = Some ''video''
         then (blank ''video'')\<lparr>
                src := source,
                muted := Some (case m_muted m of None \<Rightarrow> True | Some b \<Rightarrow> b),
                loop := Some (case m_loop m of None \<Rightarrow> True | Some b \<Rightarrow> b),
                controls := Some (case m_controls m of None \<Rightarrow> False | Some b \<Rightarrow> b),
                autoplay := Some (case m_autoplay m of None \<Rightarrow> True | Some b \<Rightarrow> b)\<rparr>
         else (blank ''img'')\<lparr>src := source\<rparr>)"

definition mediaDom :: "slide \<Rightarrow> dom list" where
  "mediaDom d =
     (case media d of
        None \<Rightarrow> []
      | Some m \<Rightarrow>
          [Dom (node ''div'' [''orient-slide__media''] None None []) [Dom (mediaEl m) []]])"

definition textDom :: "slide \<Rightarrow> dom" where
  "textDom d =
     Dom (node ''div'' [''orient-slide__text-wrapper''] None None [])
       [Dom (node ''div'' [''orient-slide__title''] (textOf (title d)) None []) [],
        Dom (node ''div'' [''orient-slide__body''] (textOf (body d)) None []) []]"

definition buttonsDom :: "buttons \<Rightarrow> nat \<Rightarrow> nat \<Rightarrow> dom" where
  "buttonsDom bh i n =
     Dom (node ''div'' [''orient-slide__button-wrapper''] None None [])
       ([Dom (node ''div'' [''orient-slide__button'', ''orient-slide__close-button''] None
                (Some (orElse (b_exit bh) ''Exit'')) [(''click'', StopFlow)]) []]
        @ (if i > 0
           then [Dom (node ''div'' [''orient-slide__button'', ''orient-slide__prev-button''] None
                        (Some (orElse (b_prev bh) ''Prev'')) [(''click'', PrevSlide)]) []]
           else [])
        @ (if i + 1 < n
           then [Dom (node ''div'' [''orient-slide__button'', ''orient-slide__next-button''] None
                        (Some (orElse (b_next bh) ''Next'')) [(''click'', NextSlide)]) []]
           else []))"

definition scriptDom :: "slide \<Rightarrow> dom list" where
  "scriptDom d =
     (case onShow d of
        None \<Rightarrow> []
      | Some c \<Rightarrow> if c = [] then [] else [Dom (node ''script'' [] None (Some c) []) []])"

definition overlayDom :: "state \<Rightarrow> dom list" where
  "overlayDom st =
     (if overlay st
      then [Dom (node ''div'' [''orient-slide__overlay''] None None
                  (if clickOverlayClosesTour st then [(''click'', StopFlow)] else [])) []]
      else [])"

definition wrapperClasses :: "state \<Rightarrow> string list" where
  "wrapperClasses st =
     (case cssPrefix st of
        None \<Rightarrow> []
      | Some p \<Rightarrow> if p = [] then [] else [p])
     @ [''orient-slide-wrapper'']"

text \<open>
  \<open>slideDom st d i sl\<close>: the rendering of slide \<open>d\<close> at index \<open>i\<close> under the options and
  the flow of \<open>st\<close>, with \<open>sl\<close> as the slide element itself (its classes and its inline
  position are the positioner's).
\<close>

definition slideDom :: "state \<Rightarrow> slide \<Rightarrow> nat \<Rightarrow> element \<Rightarrow> dom" where
  "slideDom st d i sl =
     Dom (node ''div'' (wrapperClasses st) None None [])
       (overlayDom st
        @ [Dom sl
             (mediaDom d
              @ [Dom (node ''div'' [''orient-slide__content''] None None [])
                   [textDom d, buttonsDom (buttonHtml st) i (length (flowData st))]]
              @ scriptDom d)])"

text \<open>
  \<open>showsSlide s w d i\<close>: the tree under the wrapper \<open>w\<close> is the rendering of \<open>d\<close> at index
  \<open>i\<close>; its slide element is \<open>this.slideEl\<close>, a \<open>div\<close> whose classes begin with those of
  the slide.
\<close>

definition showsSlide :: "state \<Rightarrow> ref \<Rightarrow> slide \<Rightarrow> nat \<Rightarrow> bool" where
  "showsSlide s w d i =
     (case slideEl s of
        None \<Rightarrow> False
      | Some sl \<Rightarrow>
          view 4 (heap s) w
            = slideDom s d i
                ((blank ''div'')\<lparr>classList := classList (heap s sl),
                                  estyle := estyle (heap s sl)\<rparr>)
          \<and> take (length (shellClasses d)) (classList (heap s sl)) = shellClasses d)"

text \<open>Two slides with a media object that is neither a video nor an image.\<close>

definition audioSlide :: slide where
  "audioSlide = modalSlide\<lparr>media := Some \<lparr> m_type = Some ''audio'',
     m_url = Some ''media/intro.mp3'', m_muted = None, m_loop = None, m_controls = None,
     m_autoplay = None \<rparr>\<rparr>"

definition untypedSlide :: slide where
  "untypedSlide = modalSlide\<lparr>media := Some \<lparr> m_type = None, m_url = None, m_muted = None,
     m_loop = None, m_controls = None, m_autoplay = None \<rparr>\<rparr>"

section \<open>Lemmas\<close>

subsection \<open>What the building blocks leave alone\<close>

text \<open>
  Making elements changes the store and the allocator only (\<open>frame\<close>); positioning
  and the media block also write to the trace, the scroll offsets and
  \<open>attachTargetEl\<close>, but never to the controller's part (\<open>ctl\<close>).
\<close>

lemma thenDo_simps [simp]: "thenDo (Inl e) f = Inl e" "thenDo (Inr x) f = f x"
  by (simp_all add: thenDo_def)

lemma frame_fields:
  assumes "frame s = frame st"
  shows "ctl s = ctl st \<and> slideEl s = slideEl st \<and> attachTargetEl s = attachTargetEl st
    \<and> trace s = trace st \<and> pageXOffset s = pageXOffset st \<and> pageYOffset s = pageYOffset st
    \<and> buttonHtml s = buttonHtml st \<and> flowData s = flowData st \<and> cssPrefix s = cssPrefix st
    \<and> overlay s = overlay st \<and> clickOverlayClosesTour s = clickOverlayClosesTour st
    \<and> innerWidth s = innerWidth st \<and> innerHeight s = innerHeight st
    \<and> autoScroll s = autoScroll st \<and> querySelector s = querySelector st
    \<and> hasScrollXY s = hasScrollXY st \<and> activeSlideIndex s = activeSlideIndex st
    \<and> activeSlideEl s = activeSlideEl st \<and> bodyChildren s = bodyChildren st
    \<and> flowURL s = flowURL st \<and> keydownBound s = keydownBound st"
proof -
  have "\<And>f. f (frame s) = f (frame st)" using assms by simp
  note a = this
  show ?thesis
    using a[of flowURL] a[of flowData] a[of activeSlideIndex] a[of activeSlideEl]
      a[of bodyChildren] a[of autoScroll] a[of cssPrefix] a[of buttonHtml]
      a[of clickOverlayClosesTour] a[of overlay] a[of querySelector] a[of innerWidth]
      a[of innerHeight] a[of hasScrollXY] a[of keydownBound] a[of slideEl]
      a[of attachTargetEl] a[of trace] a[of pageXOffset] a[of pageYOffset]
    by (simp add: frame_def ctl_def)
qed

lemma ctl_fields:
  "ctl s = ctl st \<Longrightarrow> flowData s = flowData st \<and> activeSlideIndex s = activeSlideIndex st
     \<and> activeSlideEl s = activeSlideEl st \<and> bodyChildren s = bodyChildren st
     \<and> flowURL s = flowURL st \<and> keydownBound s = keydownBound st
     \<and> buttonHtml s = buttonHtml st \<and> cssPrefix s = cssPrefix st
     \<and> overlay s = overlay st \<and> clickOverlayClosesTour s = clickOverlayClosesTour st
     \<and> innerWidth s = innerWidth st \<and> innerHeight s = innerHeight st
     \<and> autoScroll s = autoScroll st \<and> querySelector s = querySelector st
     \<and> hasScrollXY s = hasScrollXY st"
  by (simp add: ctl_def)

lemma ctl_upd [simp]:
  "ctl (st\<lparr>slideEl := a\<rparr>) = ctl st"
  "ctl (st\<lparr>attachTargetEl := b\<rparr>) = ctl st"
  "ctl (st\<lparr>heap := h\<rparr>) = ctl st"
  "ctl (st\<lparr>nextRef := n\<rparr>) = ctl st"
  "ctl (st\<lparr>trace := t\<rparr>) = ctl st"
  "ctl (st\<lparr>pageXOffset := x\<rparr>) = ctl st"
  "ctl (st\<lparr>pageYOffset := y\<rparr>) = ctl st"
  by (simp_all add: ctl_def)

lemma currentSlide_ctl: "ctl s = ctl st \<Longrightarrow> currentSlide s = currentSlide st"
  by (auto simp: ctl_def currentSlide_def split: option.splits)

lemma frame_modify [simp]: "frame (modify r f st) = frame st"
  by (simp add: frame_def modify_def)

lemma frame_docCreate [simp]: "frame (snd (docCreateElement t st)) = frame st"
  by (simp add: frame_def docCreateElement_def)

lemma frame_addEv [simp]: "frame (addEventListener r ev st) = frame st"
  by (simp add: addEventListener_def split: option.splits)

lemma frame_foldl_addEv [simp]: "frame (foldl (\<lambda>s ev. addEventListener r ev s) st evs) = frame st"
  by (induction evs arbitrary: st) simp_all

lemma frame_createElement [simp]: "frame (snd (createElement opts st)) = frame st"
  by (simp add: createElement_def Let_def split_beta)

lemma frame_appendNew [simp]: "frame (appendNew p opts st) = frame st"
  by (simp add: appendNew_def Let_def split_beta)

lemmas modify_fields [simp] = frame_fields [OF frame_modify]

lemmas createElement_fields [simp] = frame_fields [OF frame_createElement]

lemmas appendNew_fields [simp] = frame_fields [OF frame_appendNew]

lemmas docCreate_fields [simp] = frame_fields [OF frame_docCreate]

lemma ctl_emit [simp]: "ctl (emit e st) = ctl st"
  by (simp add: ctl_def emit_def)

lemma ctl_scrollTo [simp]: "ctl (scrollTo x y st) = ctl st"
  by (simp add: ctl_def scrollTo_def emit_def)

lemma nr_modify [simp]: "nextRef (modify r f st) = nextRef st"
  by (simp add: modify_def)

lemma nr_emit [simp]: "nextRef (emit e st) = nextRef st"
  by (simp add: emit_def)

lemma nr_docCreate [simp]: "nextRef (snd (docCreateElement t st)) = Suc (nextRef st)"
  "fst (docCreateElement t st) = nextRef st"
  by (simp_all add: docCreateElement_def)

lemma nr_addEv [simp]: "nextRef (addEventListener r ev st) = nextRef st"
  by (simp add: addEventListener_def split: option.splits)

lemma nr_foldl_addEv [simp]: "nextRef (foldl (\<lambda>s ev. addEventListener r ev s) st evs) = nextRef st"
  by (induction evs arbitrary: st) simp_all

lemma nr_createElement [simp]: "nextRef (snd (createElement opts st)) = Suc (nextRef st)"
  "fst (createElement opts st) = nextRef st"
  by (simp_all add: createElement_def Let_def split_beta)

lemma nr_appendNew [simp]: "nextRef (appendNew p opts st) = Suc (nextRef st)"
  by (simp add: appendNew_def Let_def split_beta)

lemma scriptRuns_append [simp]: "scriptRuns (a @ b) = scriptRuns a @ scriptRuns b"
  by (simp add: scriptRuns_def)

lemma scriptRuns_single [simp]:
  "scriptRuns [ConsoleError d] = []" "scriptRuns [ConsoleLog d] = []"
  "scriptRuns [ScrollTo x y] = []" "scriptRuns [RunScript z] = [z]"
  by (simp_all add: scriptRuns_def)

lemma positionSlide_frame:
  "positionSlide st = Inr s \<Longrightarrow>
     ctl s = ctl st \<and> nextRef s = nextRef st \<and> slideEl s = slideEl st
     \<and> scriptRuns (trace s) = scriptRuns (trace st)"
  by (auto simp: positionSlide_def Let_def scrollTo_def emit_def thenDo_def
      split: option.splits if_splits sum.splits)

lemma positionSlide_total:
  assumes "currentSlide st = Some d" and "slideEl st = Some sl"
    and "\<And>t. target d = Some t \<Longrightarrow> t \<noteq> [] \<Longrightarrow> \<exists>q. resolveTarget st t = Inr q"
  shows "\<exists>s. positionSlide st = Inr s"
proof (cases "truthy (target d)")
  case False
  then show ?thesis using assms(1)
    by (auto simp: positionSlide_def truthy_def split: option.splits)
next
  case True
  then obtain t where t: "target d = Some t" "t \<noteq> []"
    by (auto simp: truthy_def split: option.splits)
  from assms(3)[OF t] obtain q where "resolveTarget st t = Inr q" by blast
  then show ?thesis using assms(1,2) t
    by (cases q) (simp_all add: positionSlide_def Let_def)
qed

lemma buildMedia_ok:
  "wfSlide d \<Longrightarrow> \<exists>s. buildMedia d i sl st = Inr s \<and> ctl s = ctl st \<and> nextRef st \<le> nextRef s
     \<and> slideEl s = slideEl st \<and> scriptRuns (trace s) = scriptRuns (trace st)"
  by (cases "media d")
     (auto simp: wfSlide_def buildMedia_def Let_def split_beta appendChild_def emit_def
           truthy_def
      split: option.splits)

lemma buildShell_facts [simp]:
  "ctl (snd (buildShell d st)) = ctl st"
  "fst (buildShell d st) = nextRef st"
  "nextRef (snd (buildShell d st)) = Suc (nextRef st)"
  "slideEl (snd (buildShell d st)) = Some (nextRef st)"
  "trace (snd (buildShell d st)) = trace st"
  by (simp_all add: buildShell_def Let_def split_beta split: option.splits)

lemma buildShell_frame:
  "frame (snd (buildShell d st)) = frame (st\<lparr>slideEl := Some (nextRef st)\<rparr>)"
  by (simp add: buildShell_def Let_def split_beta frame_def modify_def createElement_def
      docCreateElement_def divOf_def addEventListener_def split: option.splits)

lemmas buildShell_fields = frame_fields [OF buildShell_frame]

lemma buildText_frame [simp]: "frame (snd (buildText d st)) = frame st"
  by (simp add: buildText_def Let_def split_beta)

lemma buildText_nr [simp]:
  "fst (buildText d st) = nextRef st"
  "nextRef (snd (buildText d st)) = nextRef st + 3"
  by (simp_all add: buildText_def Let_def split_beta)

lemmas buildText_fields [simp] = frame_fields [OF buildText_frame]

lemma buildButtons_frame [simp]: "frame (snd (buildButtons i st)) = frame st"
  by (simp add: buildButtons_def Let_def split_beta)

lemma buildButtons_nr [simp]:
  "fst (buildButtons i st) = nextRef st"
  "nextRef (snd (buildButtons i st)) = nextRef st + 2 + (if i > 0 then 1 else 0)
     + (if int i < int (length (flowData st)) - 1 then 1 else 0)"
  by (simp_all add: buildButtons_def Let_def split_beta)

lemmas buildButtons_fields [simp] = frame_fields [OF buildButtons_frame]

lemma buildBody_frame [simp]: "frame (buildBody d sl tw bw st) = frame st"
  by (simp add: buildBody_def Let_def split_beta)

lemma buildBody_nr [simp]:
  "nextRef (buildBody d sl tw bw st) = nextRef st + 1 + (if truthy (onShow d) then 1 else 0)"
  by (simp_all add: buildBody_def Let_def split_beta)

lemmas buildBody_fields [simp] = frame_fields [OF buildBody_frame]

lemma buildWrapper_frame [simp]: "frame (snd (buildWrapper sl st)) = frame st"
  by (simp add: buildWrapper_def Let_def split_beta)

lemma buildWrapper_nr [simp]:
  "fst (buildWrapper sl st) = nextRef st"
  "nextRef (snd (buildWrapper sl st)) = nextRef st + 1 + (if overlay st then 1 else 0)"
  by (simp_all add: buildWrapper_def Let_def split_beta)

lemmas buildWrapper_fields [simp] = frame_fields [OF buildWrapper_frame]

lemma buildContent_frame [simp]: "frame (snd (buildContent d i sl st)) = frame st"
  by (simp add: buildContent_def Let_def split_beta)

lemma buildContent_nr:
  "nextRef st \<le> fst (buildContent d i sl st)"
  "fst (buildContent d i sl st) < nextRef (snd (buildContent d i sl st))"
  by (simp_all add: buildContent_def Let_def split_beta)

lemmas buildContent_fields [simp] = frame_fields [OF buildContent_frame]

subsection \<open>Rendering a well-formed slide succeeds\<close>

lemma selectorOk_D:
  assumes "selectorOk st d" and "style d = ''float''" and "target d = Some t" and "t \<noteq> []"
  shows "\<exists>q. resolveTarget st t = Inr q"
  using assms by (auto simp: selectorOk_def split: sum.splits)

lemma buildSlide_ok:
  assumes cur: "currentSlide st = Some d" and ok: "validSlide st d"
  shows "\<exists>w s. buildSlide st = Inr (w, s) \<and> ctl s = ctl st \<and> nextRef st \<le> w
           \<and> scriptRuns (trace s) = scriptRuns (trace st)"
proof -
  have wf: "wfSlide d" and sel: "selectorOk st d" using ok by (simp_all add: validSlide_def)
  obtain i where i: "activeSlideIndex st = Some i"
    using cur by (auto simp: currentSlide_def split: option.splits)
  let ?s2 = "snd (buildShell d st)"
  let ?sl = "nextRef st"
  let ?pos = "if style d = ''float'' then positionSlide (?s2\<lparr>attachTargetEl := None\<rparr>) else Inr ?s2"
  have "\<exists>s3. ?pos = Inr s3 \<and> ctl s3 = ctl st \<and> nextRef s3 = Suc (nextRef st)
           \<and> scriptRuns (trace s3) = scriptRuns (trace st)"
  proof (cases "style d = ''float''")
    case True
    have c: "currentSlide (?s2\<lparr>attachTargetEl := None\<rparr>) = Some d"
      using cur currentSlide_ctl[of "?s2\<lparr>attachTargetEl := None\<rparr>" st] by simp
    have e: "slideEl (?s2\<lparr>attachTargetEl := None\<rparr>) = Some ?sl" by simp
    have r: "resolveTarget (?s2\<lparr>attachTargetEl := None\<rparr>) t = resolveTarget st t" for t
      using buildShell_fields[of d st] by (simp add: resolveTarget_def)
    have "\<exists>q. resolveTarget (?s2\<lparr>attachTargetEl := None\<rparr>) t = Inr q"
      if "target d = Some t" "t \<noteq> []" for t
      using selectorOk_D[OF sel True that] r by simp
    from positionSlide_total[OF c e this]
    obtain s3 where s3: "positionSlide (?s2\<lparr>attachTargetEl := None\<rparr>) = Inr s3" by blast
    from positionSlide_frame[OF s3] True s3 show ?thesis by simp
  next
    case False
    then show ?thesis by simp
  qed
  then obtain s3 where s3: "?pos = Inr s3" "ctl s3 = ctl st" "nextRef s3 = Suc (nextRef st)"
      "scriptRuns (trace s3) = scriptRuns (trace st)" by blast
  obtain s4 where s4: "buildMedia d i ?sl s3 = Inr s4" "ctl s4 = ctl s3" "nextRef s3 \<le> nextRef s4"
      "scriptRuns (trace s4) = scriptRuns (trace s3)"
    using buildMedia_ok[OF wf, of i ?sl s3] by blast
  have "buildSlide st = Inr (buildContent d i ?sl s4)"
    using cur i s3(1) s4(1) by (simp add: buildSlide_def Let_def split_beta)
  moreover have "nextRef st \<le> fst (buildContent d i ?sl s4)"
    using buildContent_nr(1)[of s4 d i ?sl] s4(3) s3(3) by simp
  ultimately show ?thesis
    using s3 s4 by (intro exI[of _ "fst (buildContent d i ?sl s4)"]
        exI[of _ "snd (buildContent d i ?sl s4)"]) simp
qed

lemma render_ok:
  assumes cur: "currentSlide st = Some d" and wf: "validSlide st d"
  shows "\<exists>w s. render st = Inr s \<and> activeSlideEl s = Some w \<and> nextRef st \<le> w
           \<and> bodyChildren s = filter (\<lambda>x. x \<noteq> w) (bodyChildren st) @ [w]
           \<and> flowData s = flowData st \<and> activeSlideIndex s = activeSlideIndex st
           \<and> flowURL s = flowURL st
           \<and> scriptRuns (trace s) = scriptRuns (trace st)"
proof -
  obtain w s where b: "buildSlide st = Inr (w, s)" "ctl s = ctl st" "nextRef st \<le> w"
      "scriptRuns (trace s) = scriptRuns (trace st)"
    using buildSlide_ok[OF cur wf] by blast
  from ctl_fields[OF b(2)] b show ?thesis
    by (simp add: render_def insertSlide_def)
qed

subsection \<open>Elements that were there before are not touched\<close>

lemma heap_modify [simp]: "heap (modify p f st) r = (if r = p then f (heap st p) else heap st r)"
  by (simp add: modify_def)

lemma heap_emit [simp]: "heap (emit e st) = heap st"
  by (simp add: emit_def)

lemma heap_addEv_old: "r \<noteq> p \<Longrightarrow> heap (addEventListener p ev st) r = heap st r"
  by (simp add: addEventListener_def split: option.splits)

lemma heap_foldl_addEv_old:
  "r \<noteq> p \<Longrightarrow> heap (foldl (\<lambda>s ev. addEventListener p ev s) st evs) r = heap st r"
  by (induction evs arbitrary: st) (simp_all add: heap_addEv_old)

lemma heap_createElement_old [simp]:
  "r < nextRef st \<Longrightarrow> heap (snd (createElement opts st)) r = heap st r"
  by (simp add: createElement_def Let_def split_beta heap_foldl_addEv_old docCreateElement_def)

lemma heap_appendNew_old [simp]:
  "r < nextRef st \<Longrightarrow> r \<noteq> p \<Longrightarrow> heap (appendNew p opts st) r = heap st r"
  by (simp add: appendNew_def Let_def split_beta)

lemma heap_buildShell_old [simp]:
  "r < nextRef st \<Longrightarrow> heap (snd (buildShell d st)) r = heap st r"
  by (simp add: buildShell_def Let_def split_beta split: option.splits)

lemma heap_buildText_old [simp]:
  "r < nextRef st \<Longrightarrow> heap (snd (buildText d st)) r = heap st r"
  by (simp add: buildText_def Let_def split_beta)

lemma heap_buildButtons_old [simp]:
  "r < nextRef st \<Longrightarrow> heap (snd (buildButtons i st)) r = heap st r"
  by (simp add: buildButtons_def Let_def split_beta)

lemma heap_buildBody_old [simp]:
  "r < nextRef st \<Longrightarrow> r \<noteq> sl \<Longrightarrow> heap (buildBody d sl tw bw st) r = heap st r"
  by (simp add: buildBody_def Let_def split_beta)

lemma heap_buildWrapper_old [simp]:
  "r < nextRef st \<Longrightarrow> heap (snd (buildWrapper sl st)) r = heap st r"
  by (simp add: buildWrapper_def Let_def split_beta)

lemma heap_buildContent_old:
  "r < nextRef st \<Longrightarrow> r \<noteq> sl \<Longrightarrow> heap (snd (buildContent d i sl st)) r = heap st r"
  by (simp add: buildContent_def Let_def split_beta)

lemma heap_buildMedia_old:
  "buildMedia d i sl st = Inr s \<Longrightarrow> r < nextRef st \<Longrightarrow> r \<noteq> sl \<Longrightarrow> heap s r = heap st r"
  by (cases "media d")
     (auto simp: buildMedia_def Let_def split_beta appendChild_def docCreateElement_def
        thenDo_def split: option.splits if_splits sum.splits)

lemma buildSlide_decomp:
  assumes "buildSlide st = Inr (w, s)"
  shows "\<exists>d i s3 s4. currentSlide st = Some d \<and> activeSlideIndex st = Some i
     \<and> (if style d = ''float'' then positionSlide ((snd (buildShell d st))\<lparr>attachTargetEl := None\<rparr>)
         else Inr (snd (buildShell d st))) = Inr s3
     \<and> buildMedia d i (nextRef st) s3 = Inr s4
     \<and> buildContent d i (nextRef st) s4 = (w, s)"
  using assms
  by (auto simp: buildSlide_def Let_def split_beta thenDo_def split: option.splits sum.splits)

subsection \<open>Positioning\<close>

text \<open>
  The absolute position that \<open>getElAbsolutePosition\<close> computes is the element's place in
  the document, whatever the scroll offsets are and whichever pair of offsets the browser
  has.
\<close>

lemma getElAbsolutePosition_box:
  "getElAbsolutePosition st t =
     \<lparr> r_left = box_left (heap st t), r_right = box_left (heap st t) + box_width (heap st t),
       r_top = box_top (heap st t), r_bottom = box_top (heap st t) + box_height (heap st t),
       r_height = box_height (heap st t), r_width = box_width (heap st t) \<rparr>"
  by (simp add: getElAbsolutePosition_def getBoundingClientRect_def Let_def scrollX_def
      scrollY_def truthyNum_def)

lemma classAdd_simps [simp]:
  "box_left (classAdd c e) = box_left e" "box_top (classAdd c e) = box_top e"
  "box_width (classAdd c e) = box_width e" "box_height (classAdd c e) = box_height e"
  "estyle (classAdd c e) = estyle e"
  "set (classList (classAdd c e)) = insert c (set (classList e))"
  by (auto simp: classAdd_def)

lemma setStyle_simps [simp]:
  "estyle (setStyle p v e) = (estyle e)(p \<mapsto> v)"
  "classList (setStyle p v e) = classList e"
  by (simp_all add: setStyle_def)

lemma getElAbs_modify_classAdd [simp]:
  "getElAbsolutePosition (modify t (classAdd c) st) r = getElAbsolutePosition st r"
  by (simp add: getElAbsolutePosition_box)

lemma getElAbs_upd [simp]:
  "getElAbsolutePosition (st\<lparr>attachTargetEl := a\<rparr>) r = getElAbsolutePosition st r"
  by (simp add: getElAbsolutePosition_box)

lemma atPositioning_facts:
  "flowData p \<noteq> [] \<Longrightarrow> currentSlide (atPositioning p) = Some (flowData p ! 0)"
  "slideEl (atPositioning p) = Some (nextRef p)"
  "resolveTarget (atPositioning p) sel = resolveTarget p sel"
  "r < nextRef p \<Longrightarrow> heap (atPositioning p) r = heap p r"
  "innerWidth (atPositioning p) = innerWidth p"
  "innerHeight (atPositioning p) = innerHeight p"
  "autoScroll (atPositioning p) = autoScroll p"
  "pageXOffset (atPositioning p) = pageXOffset p"
  "pageYOffset (atPositioning p) = pageYOffset p"
  "trace (atPositioning p) = trace p"
proof -
  let ?q = "p\<lparr>activeSlideIndex := Some 0\<rparr>"
  note F = buildShell_fields[of "flowData p ! 0" ?q]
  show "flowData p \<noteq> [] \<Longrightarrow> currentSlide (atPositioning p) = Some (flowData p ! 0)"
    using F by (simp add: atPositioning_def currentSlide_def)
  show "slideEl (atPositioning p) = Some (nextRef p)"
    by (simp add: atPositioning_def)
  show "resolveTarget (atPositioning p) sel = resolveTarget p sel"
    using F by (simp add: atPositioning_def resolveTarget_def)
  show "r < nextRef p \<Longrightarrow> heap (atPositioning p) r = heap p r"
    by (simp add: atPositioning_def)
  show "innerWidth (atPositioning p) = innerWidth p" "innerHeight (atPositioning p) = innerHeight p"
    "autoScroll (atPositioning p) = autoScroll p" "pageXOffset (atPositioning p) = pageXOffset p"
    "pageYOffset (atPositioning p) = pageYOffset p" "trace (atPositioning p) = trace p"
    using F by (simp_all add: atPositioning_def)
qed

lemma heroPage_facts:
  "flowData (heroPage W X T) = [floatSlide, modalSlide]"
  "nextRef (heroPage W X T) = 1"
  "resolveTarget (heroPage W X T) ''#hero'' = Inr (Some 0)"
  "heap (heroPage W X T) 0 = heroEl\<lparr>box_top := T\<rparr>"
  "innerWidth (heroPage W X T) = W" "innerHeight (heroPage W X T) = 800"
  "autoScroll (heroPage W X T)" "pageXOffset (heroPage W X T) = X"
  "pageYOffset (heroPage W X T) = 0" "trace (heroPage W X T) = []"
  "target floatSlide = Some ''#hero''"
  by (simp_all add: heroPage_def idlePage_def resolveTarget_def floatSlide_def)

lemma atPositioning_heroPage:
  "currentSlide (atPositioning (heroPage W X T)) = Some floatSlide"
  "slideEl (atPositioning (heroPage W X T)) = Some 1"
  "resolveTarget (atPositioning (heroPage W X T)) ''#hero'' = Inr (Some 0)"
  "heap (atPositioning (heroPage W X T)) 0 = heroEl\<lparr>box_top := T\<rparr>"
  by (simp_all add: atPositioning_facts heroPage_facts)

lemma positionSlide_resolved:
  assumes "currentSlide st = Some d" and "target d = Some sel" and "sel \<noteq> []"
    and "resolveTarget st sel = Inr (Some t)" and "slideEl st = Some sl"
  shows "positionSlide st =
     (let s2 = modify t (classAdd ''orient-target-el'') (st\<lparr>attachTargetEl := Some t\<rparr>);
          br = getElAbsolutePosition st t;
          s3 = (if r_left br + 360 > innerWidth st
                then modify sl (setStyle ''right'' (Px (innerWidth st - r_right br)))
                       (modify sl (classAdd ''orient-slide--aligned-right'') s2)
                else modify sl (setStyle ''left'' (Px (r_left br))) s2);
          s4 = modify sl (setStyle ''top'' (Px (r_top br + r_height br))) s3;
          y = (r_top br + r_height br) - innerHeight st / 2
      in Inr (if autoScroll st then scrollTo 0 (max 0 y) s4 else s4))"
  using assms
  by (simp add: positionSlide_def Let_def max_def)

subsection \<open>The elements that rendering makes\<close>

lemma field_addEv [simp]:
  "estyle (heap (addEventListener p ev st) r) = estyle (heap st r)"
  "classList (heap (addEventListener p ev st) r) = classList (heap st r)"
  "children (heap (addEventListener p ev st) r) = children (heap st r)"
  "innerText (heap (addEventListener p ev st) r) = innerText (heap st r)"
  "innerHTML (heap (addEventListener p ev st) r) = innerHTML (heap st r)"
  "tagName (heap (addEventListener p ev st) r) = tagName (heap st r)"
  by (simp_all add: addEventListener_def split: option.splits)

lemma field_foldl_addEv [simp]:
  "estyle (heap (foldl (\<lambda>s ev. addEventListener p ev s) st evs) r) = estyle (heap st r)"
  "classList (heap (foldl (\<lambda>s ev. addEventListener p ev s) st evs) r) = classList (heap st r)"
  "children (heap (foldl (\<lambda>s ev. addEventListener p ev s) st evs) r) = children (heap st r)"
  "innerText (heap (foldl (\<lambda>s ev. addEventListener p ev s) st evs) r) = innerText (heap st r)"
  "innerHTML (heap (foldl (\<lambda>s ev. addEventListener p ev s) st evs) r) = innerHTML (heap st r)"
  "tagName (heap (foldl (\<lambda>s ev. addEventListener p ev s) st evs) r) = tagName (heap st r)"
  by (induction evs arbitrary: st) simp_all

lemma createElement_new [simp]:
  "estyle (heap (snd (createElement opts st)) (nextRef st)) = Map.empty"
  "children (heap (snd (createElement opts st)) (nextRef st)) = []"
  "classList (heap (snd (createElement opts st)) (nextRef st)) = o_className opts"
  "tagName (heap (snd (createElement opts st)) (nextRef st)) = o_type opts"
  "innerText (heap (snd (createElement opts st)) (nextRef st))
     = (if truthy (o_text opts) then o_text opts else None)"
  "innerHTML (heap (snd (createElement opts st)) (nextRef st))
     = (if truthy (o_text opts) then None
        else if truthy (o_html opts) then o_html opts else None)"
  by (simp_all add: createElement_def Let_def split_beta docCreateElement_def blank_def)

lemma buildShell_new [simp]:
  "estyle (heap (snd (buildShell d st)) (nextRef st)) = Map.empty"
  "children (heap (snd (buildShell d st)) (nextRef st)) = []"
  "classList (heap (snd (buildShell d st)) (nextRef st))
     = [''animated'', ''fadeInDown'', ''orient-slide'', ''orient-slide--'' @ style d]
       @ (case extraClasses d of None \<Rightarrow> [] | Some cs \<Rightarrow> cs)"
  by (simp_all add: buildShell_def Let_def split_beta divOf_def split: option.splits)

lemma atPositioning_new:
  "estyle (heap (atPositioning p) (nextRef p)) = Map.empty"
  using buildShell_new(1)[of "flowData p ! 0" "p\<lparr>activeSlideIndex := Some 0\<rparr>"]
  by (simp add: atPositioning_def)

subsection \<open>Stopping and starting\<close>

lemma stopFlow_ok:
  assumes "\<forall>w. activeSlideEl st = Some w \<longrightarrow> w \<in> set (bodyChildren st)"
  shows "\<exists>s. stopFlow st = Inr s \<and> flowURL s = flowURL st \<and> flowData s = flowData st
     \<and> activeSlideEl s = None \<and> activeSlideIndex s = None \<and> \<not> keydownBound s
     \<and> bodyChildren s = (case activeSlideEl st of None \<Rightarrow> bodyChildren st
                          | Some w \<Rightarrow> filter (\<lambda>x. x \<noteq> w) (bodyChildren st))"
  using assms
  by (cases "activeSlideEl st")
     (auto simp: stopFlow_def removeChild_def removeAttachedTargetStyles_def
       split: option.splits)

lemma startFlow_idlePage:
  "\<exists>w s. startFlow idlePage = Inr s \<and> activeSlideEl s = Some w \<and> w \<in> set (bodyChildren s)
     \<and> flowData s = [floatSlide, modalSlide] \<and> activeSlideIndex s = Some 0"
proof -
  have c: "currentSlide (idlePage\<lparr>activeSlideIndex := Some 0\<rparr>) = Some floatSlide"
    by (simp add: currentSlide_def idlePage_def)
  have w: "validSlide (idlePage\<lparr>activeSlideIndex := Some 0\<rparr>) floatSlide"
    by (simp add: validSlide_def wfSlide_def selectorOk_def resolveTarget_def floatSlide_def
        idlePage_def)
  from render_ok[OF c w] show ?thesis
    by (auto simp: startFlow_def idlePage_def)
qed

subsection \<open>The rendered tree shows the slide\<close>

lemma createElement_at:
  "r = nextRef st \<Longrightarrow> estyle (heap (snd (createElement opts st)) r) = Map.empty"
  "r = nextRef st \<Longrightarrow> children (heap (snd (createElement opts st)) r) = []"
  "r = nextRef st \<Longrightarrow> classList (heap (snd (createElement opts st)) r) = o_className opts"
  "r = nextRef st \<Longrightarrow> tagName (heap (snd (createElement opts st)) r) = o_type opts"
  "r = nextRef st \<Longrightarrow> innerText (heap (snd (createElement opts st)) r)
     = (if truthy (o_text opts) then o_text opts else None)"
  "r = nextRef st \<Longrightarrow> innerHTML (heap (snd (createElement opts st)) r)
     = (if truthy (o_text opts) then None
        else if truthy (o_html opts) then o_html opts else None)"
  by simp_all

lemma appendNew_at:
  "r = p \<Longrightarrow> p < nextRef st \<Longrightarrow>
     heap (appendNew p opts st) r = (heap st p)\<lparr>children := children (heap st p) @ [nextRef st]\<rparr>"
  "r = nextRef st \<Longrightarrow> p < nextRef st \<Longrightarrow>
     heap (appendNew p opts st) r = heap (snd (createElement opts st)) r"
  by (simp_all add: appendNew_def Let_def split_beta)

lemma buildMedia_keeps:
  assumes "buildMedia d i sl st = Inr s"
  shows "attachTargetEl s = attachTargetEl st" "slideEl s = slideEl st"
    "nextRef st \<le> nextRef s"
    "sl < nextRef st \<Longrightarrow> classList (heap s sl) = classList (heap st sl)"
    "sl < nextRef st \<Longrightarrow> estyle (heap s sl) = estyle (heap st sl)"
proof -
  show "attachTargetEl s = attachTargetEl st" "slideEl s = slideEl st" "nextRef st \<le> nextRef s"
    using assms
    by (auto simp: buildMedia_def Let_def split_beta appendChild_def emit_def
        thenDo_def split: option.splits if_splits sum.splits)
  show "sl < nextRef st \<Longrightarrow> classList (heap s sl) = classList (heap st sl)"
    "sl < nextRef st \<Longrightarrow> estyle (heap s sl) = estyle (heap st sl)"
    using assms
    by (auto simp: buildMedia_def Let_def split_beta appendChild_def emit_def
        thenDo_def docCreateElement_def split: option.splits if_splits sum.splits)
qed

lemma positionSlide_heap:
  assumes "positionSlide st = Inr s" and "currentSlide st = Some d" and "slideEl st = Some sl"
  shows "r \<noteq> sl \<Longrightarrow> heap s r =
           (if truthy (target d) \<and> resolveTarget st (orElse (target d) []) = Inr (Some r)
            then classAdd ''orient-target-el'' (heap st r) else heap st r)"
    and "attachTargetEl s =
           (if truthy (target d)
            then (case resolveTarget st (orElse (target d) []) of Inl _ \<Rightarrow> None | Inr q \<Rightarrow> q)
            else attachTargetEl st)"
  using assms
  by (auto simp: positionSlide_def Let_def truthy_def orElse_def scrollTo_def emit_def
      thenDo_def split: option.splits if_splits sum.splits)

lemma positionSlide_shape:
  assumes "positionSlide st = Inr s"
  shows "(heap s r)\<lparr>classList := [], estyle := Map.empty\<rparr>
           = (heap st r)\<lparr>classList := [], estyle := Map.empty\<rparr>"
    and "\<exists>rest. classList (heap s r) = classList (heap st r) @ rest"
  using assms
  by (auto simp: positionSlide_def Let_def scrollTo_def emit_def thenDo_def classAdd_def
      setStyle_def split: option.splits if_splits sum.splits)

lemma render_eq:
  "buildSlide st = Inr (w, s) \<Longrightarrow>
     render st = Inr (s\<lparr>activeSlideEl := Some w,
                        bodyChildren := filter (\<lambda>x. x \<noteq> w) (bodyChildren s) @ [w]\<rparr>)"
  by (simp add: render_def insertSlide_def)

lemma orElse_ne: "b \<noteq> [] \<Longrightarrow> orElse a b \<noteq> []"
  by (simp add: orElse_def split: option.splits)

lemma created:
  "r = nextRef st \<Longrightarrow> cls \<noteq> [] \<Longrightarrow>
     heap (snd (createElement (divOf cls) st)) r = node ''div'' cls None None []"
  "r = nextRef st \<Longrightarrow> cls \<noteq> [] \<Longrightarrow>
     heap (snd (createElement ((divOf cls)\<lparr>o_text := Some t\<rparr>) st)) r
       = node ''div'' cls (textOf t) None []"
  "r = nextRef st \<Longrightarrow> cls \<noteq> [] \<Longrightarrow> h \<noteq> [] \<Longrightarrow>
     heap (snd (createElement ((divOf cls)\<lparr>o_html := Some h, o_events := [(n, Some g)]\<rparr>) st)) r
       = node ''div'' cls None (Some h) [(n, g)]"
  "r = nextRef st \<Longrightarrow> cls \<noteq> [] \<Longrightarrow>
     heap (snd (createElement ((divOf cls)\<lparr>o_events := [(n, x)]\<rparr>) st)) r
       = node ''div'' cls None None (case x of None \<Rightarrow> [] | Some g \<Rightarrow> [(n, g)])"
  "r = nextRef st \<Longrightarrow> c \<noteq> [] \<Longrightarrow>
     heap (snd (createElement \<lparr> o_type = ''script'', o_className = [], o_text = None,
                                o_html = Some c, o_events = [] \<rparr> st)) r
       = node ''script'' [] None (Some c) []"
  by (simp_all add: createElement_def Let_def split_beta docCreateElement_def divOf_def
      node_def blank_def addEventListener_def modify_def truthy_def textOf_def
      split: option.splits)

lemma node_children [simp]: "children (node t cls tx ht ls) = []"
  by (simp add: node_def blank_def)

lemma view_leaf: "children (h r) = [] \<Longrightarrow> view n h r = Dom (h r) []"
  by (cases n) simp_all

lemma buildText_view:
  assumes "\<And>r. nextRef st \<le> r \<Longrightarrow> r < nextRef st + 3 \<Longrightarrow> h r = heap (snd (buildText d st)) r"
  shows "view (Suc n) h (nextRef st) = textDom d"
proof -
  let ?k = "nextRef st"
  let ?s = "snd (buildText d st)"
  have e: "heap ?s ?k = (node ''div'' [''orient-slide__text-wrapper''] None None [])
               \<lparr>children := [?k + 1, ?k + 2]\<rparr>"
    "heap ?s (?k + 1) = node ''div'' [''orient-slide__title''] (textOf (title d)) None []"
    "heap ?s (?k + 2) = node ''div'' [''orient-slide__body''] (textOf (body d)) None []"
    by (simp_all add: buildText_def Let_def split_beta appendNew_at created)
  have "h ?k = heap ?s ?k" "h (?k + 1) = heap ?s (?k + 1)" "h (?k + 2) = heap ?s (?k + 2)"
    using assms by simp_all
  then show ?thesis
    using e by (simp add: textDom_def view_leaf)
qed

lemma buildButtons_view:
  assumes "\<And>r. nextRef st \<le> r \<Longrightarrow> r < nextRef (snd (buildButtons i st)) \<Longrightarrow>
             h r = heap (snd (buildButtons i st)) r"
  shows "view (Suc n) h (nextRef st) = buttonsDom (buttonHtml st) i (length (flowData st))"
proof -
  let ?b = "nextRef st"
  let ?s = "snd (buildButtons i st)"
  let ?p = "if i > 0 then 1 else (0::nat)"
  let ?nx = "int i < int (length (flowData st)) - 1"
  have nx: "?nx \<longleftrightarrow> i + 1 < length (flowData st)" by linarith
  have e: "heap ?s ?b = (node ''div'' [''orient-slide__button-wrapper''] None None [])
               \<lparr>children := [?b + 1] @ (if i > 0 then [?b + 2] else [])
                              @ (if ?nx then [?b + 2 + ?p] else [])\<rparr>"
    "heap ?s (?b + 1) = node ''div'' [''orient-slide__button'', ''orient-slide__close-button'']
        None (Some (orElse (b_exit (buttonHtml st)) ''Exit'')) [(''click'', StopFlow)]"
    "i > 0 \<Longrightarrow> heap ?s (?b + 2)
       = node ''div'' [''orient-slide__button'', ''orient-slide__prev-button'']
        None (Some (orElse (b_prev (buttonHtml st)) ''Prev'')) [(''click'', PrevSlide)]"
    "?nx \<Longrightarrow> heap ?s (?b + 2 + ?p)
       = node ''div'' [''orient-slide__button'', ''orient-slide__next-button'']
        None (Some (orElse (b_next (buttonHtml st)) ''Next'')) [(''click'', NextSlide)]"
    by (simp_all add: buildButtons_def Let_def split_beta appendNew_at created orElse_ne)
  have a: "h ?b = heap ?s ?b" "h (?b + 1) = heap ?s (?b + 1)"
    "i > 0 \<Longrightarrow> h (?b + 2) = heap ?s (?b + 2)"
    "?nx \<Longrightarrow> h (?b + 2 + ?p) = heap ?s (?b + 2 + ?p)"
    using assms by simp_all
  show ?thesis
    using e a by (simp add: buttonsDom_def view_leaf nx)
qed

lemma buildMedia_view:
  assumes bm: "buildMedia d i sl st = Inr s" and sl: "sl < nextRef st"
  shows "nextRef s = nextRef st + (case media d of None \<Rightarrow> 0 | Some _ \<Rightarrow> 2)"
    and "heap s sl = (heap st sl)\<lparr>children := children (heap st sl)
                        @ (case media d of None \<Rightarrow> [] | Some _ \<Rightarrow> [nextRef st])\<rparr>"
    and "(\<And>r. nextRef st \<le> r \<Longrightarrow> r < nextRef s \<Longrightarrow> h r = heap s r) \<Longrightarrow>
         map (view (Suc n) h) (case media d of None \<Rightarrow> [] | Some _ \<Rightarrow> [nextRef st])
           = mediaDom d"
proof -
  let ?k = "nextRef st"
  have "nextRef s = ?k + (case media d of None \<Rightarrow> 0 | Some _ \<Rightarrow> 2)
    \<and> heap s sl = (heap st sl)\<lparr>children := children (heap st sl)
                        @ (case media d of None \<Rightarrow> [] | Some _ \<Rightarrow> [?k])\<rparr>
    \<and> (case media d of None \<Rightarrow> True
        | Some m \<Rightarrow> heap s ?k = (node ''div'' [''orient-slide__media''] None None [])
                                  \<lparr>children := [?k + 1]\<rparr>
                    \<and> heap s (?k + 1) = mediaEl m)"
  proof (cases "media d")
    case None
    then show ?thesis using bm by (simp add: buildMedia_def)
  next
    case (Some m)
    have ty: "m_type m = Some ''video'' \<or> m_type m = Some ''image''"
      using bm Some by (auto simp: buildMedia_def Let_def split_beta appendChild_def
          split: if_splits)
    show ?thesis
      using bm Some ty sl
      by (auto simp: buildMedia_def Let_def split_beta appendChild_def emit_def
          docCreateElement_def created mediaEl_def blank_def)
  qed
  then have f: "nextRef s = ?k + (case media d of None \<Rightarrow> 0 | Some _ \<Rightarrow> 2)"
    "heap s sl = (heap st sl)\<lparr>children := children (heap st sl)
                        @ (case media d of None \<Rightarrow> [] | Some _ \<Rightarrow> [?k])\<rparr>"
    "\<And>m. media d = Some m \<Longrightarrow> heap s ?k = (node ''div'' [''orient-slide__media''] None None [])
                                  \<lparr>children := [?k + 1]\<rparr>
                    \<and> heap s (?k + 1) = mediaEl m"
    by simp_all
  show "nextRef s = ?k + (case media d of None \<Rightarrow> 0 | Some _ \<Rightarrow> 2)" by (rule f(1))
  show "heap s sl = (heap st sl)\<lparr>children := children (heap st sl)
                        @ (case media d of None \<Rightarrow> [] | Some _ \<Rightarrow> [?k])\<rparr>" by (rule f(2))
  assume a: "\<And>r. ?k \<le> r \<Longrightarrow> r < nextRef s \<Longrightarrow> h r = heap s r"
  show "map (view (Suc n) h) (case media d of None \<Rightarrow> [] | Some _ \<Rightarrow> [?k]) = mediaDom d"
  proof (cases "media d")
    case None
    then show ?thesis by (simp add: mediaDom_def)
  next
    case (Some m)
    have "h ?k = heap s ?k" "h (?k + 1) = heap s (?k + 1)"
      using a f(1) Some by simp_all
    moreover have "children (mediaEl m) = []" by (simp add: mediaEl_def blank_def Let_def)
    ultimately show ?thesis
      using f(3)[OF Some] Some by (simp add: mediaDom_def view_leaf)
  qed
qed

lemma buildBody_els:
  assumes "sl < nextRef st"
  shows "heap (buildBody d sl tw bw st) (nextRef st)
           = (node ''div'' [''orient-slide__content''] None None [])\<lparr>children := [tw, bw]\<rparr>"
    and "\<And>c. onShow d = Some c \<Longrightarrow> c \<noteq> [] \<Longrightarrow>
           heap (buildBody d sl tw bw st) (nextRef st + 1) = node ''script'' [] None (Some c) []"
    and "heap (buildBody d sl tw bw st) sl
           = (heap st sl)\<lparr>children := children (heap st sl) @ [nextRef st]
                @ (if truthy (onShow d) then [nextRef st + 1] else [])\<rparr>"
  using assms
  by (simp_all add: buildBody_def Let_def split_beta appendNew_at created truthy_def)

lemma buildWrapper_els:
  assumes "sl < nextRef st"
  shows "heap (snd (buildWrapper sl st)) (nextRef st)
           = (node ''div'' (wrapperClasses st) None None [])
               \<lparr>children := (if overlay st then [nextRef st + 1] else []) @ [sl]\<rparr>"
    and "overlay st \<Longrightarrow> heap (snd (buildWrapper sl st)) (nextRef st + 1)
           = node ''div'' [''orient-slide__overlay''] None None
               (if clickOverlayClosesTour st then [(''click'', StopFlow)] else [])"
  using assms
  by (auto simp: buildWrapper_def Let_def split_beta appendNew_at created wrapperClasses_def
      truthy_def orElse_def split: option.splits)

lemma scriptDom_alt:
  "scriptDom d = (if truthy (onShow d) then [Dom (node ''script'' [] None (onShow d) []) []] else [])"
  by (simp add: scriptDom_def truthy_def split: option.splits)

lemma buildContent_view:
  assumes sl: "sl < nextRef st"
  shows "view (Suc (Suc (Suc (Suc 0)))) (heap (snd (buildContent d i sl st)))
           (fst (buildContent d i sl st))
     = Dom (node ''div'' (wrapperClasses st) None None [])
        (overlayDom st
         @ [Dom ((heap st sl)\<lparr>children := []\<rparr>)
              (map (view (Suc (Suc 0)) (heap (snd (buildContent d i sl st))))
                 (children (heap st sl))
               @ [Dom (node ''div'' [''orient-slide__content''] None None [])
                    [textDom d, buttonsDom (buttonHtml st) i (length (flowData st))]]
               @ scriptDom d)])"
    and "\<exists>kids. heap (snd (buildContent d i sl st)) sl = (heap st sl)\<lparr>children := kids\<rparr>"
proof -
  define k where "k = nextRef st"
  define s7 where "s7 = snd (buildText d st)"
  define s11 where "s11 = snd (buildButtons i s7)"
  define s16 where "s16 = buildBody d sl k (nextRef s7) s11"
  define s19 where "s19 = snd (buildWrapper sl s16)"
  define h where "h = heap s19"
  define cw where "cw = nextRef s11"
  define w where "w = nextRef s16"
  have bc: "snd (buildContent d i sl st) = s19" "fst (buildContent d i sl st) = w"
    by (simp_all add: buildContent_def Let_def split_beta s7_def s11_def s16_def s19_def k_def
        w_def)
  have n7: "nextRef s7 = k + 3" by (simp add: s7_def k_def)
  have n11: "k + 3 < cw" using n7 by (simp add: s11_def cw_def)
  have n16: "w = cw + 1 + (if truthy (onShow d) then 1 else 0)"
    by (simp add: s16_def w_def cw_def)
  have slk: "sl < k" using sl by (simp add: k_def)
  have old19: "\<And>r. r < w \<Longrightarrow> h r = heap s16 r"
    by (simp add: s19_def h_def w_def)
  have old16: "\<And>r. r < cw \<Longrightarrow> r \<noteq> sl \<Longrightarrow> heap s16 r = heap s11 r"
    by (simp add: s16_def cw_def)
  have old11: "\<And>r. r < k + 3 \<Longrightarrow> heap s11 r = heap s7 r"
    using n7 by (simp add: s11_def)
  have old7: "\<And>r. r < k \<Longrightarrow> heap s7 r = heap st r"
    by (simp add: s7_def k_def)
  have cfg: "wrapperClasses s16 = wrapperClasses st" "overlay s16 = overlay st"
    "clickOverlayClosesTour s16 = clickOverlayClosesTour st"
    "buttonHtml s7 = buttonHtml st" "flowData s7 = flowData st"
    by (simp_all add: wrapperClasses_def s16_def s11_def s7_def)
  have slw: "sl < nextRef s16" "sl < nextRef s11" using slk n11 n16 by (simp_all add: w_def[symmetric] cw_def[symmetric])
  \<comment> \<open>the wrapper and the overlay\<close>
  have hw: "h w = (node ''div'' (wrapperClasses st) None None [])
                    \<lparr>children := (if overlay st then [w + 1] else []) @ [sl]\<rparr>"
    using buildWrapper_els(1)[OF slw(1)] cfg by (simp add: h_def s19_def w_def)
  have hov: "overlay st \<Longrightarrow> h (w + 1) = node ''div'' [''orient-slide__overlay''] None None
               (if clickOverlayClosesTour st then [(''click'', StopFlow)] else [])"
    using buildWrapper_els(2)[OF slw(1)] cfg by (simp add: h_def s19_def w_def)
  \<comment> \<open>the slide element, the content wrapper and the script\<close>
  have b16: "heap s16 cw = (node ''div'' [''orient-slide__content''] None None [])
               \<lparr>children := [k, k + 3]\<rparr>"
    "\<And>c. onShow d = Some c \<Longrightarrow> c \<noteq> [] \<Longrightarrow>
           heap s16 (cw + 1) = node ''script'' [] None (Some c) []"
    "heap s16 sl = (heap s11 sl)\<lparr>children := children (heap s11 sl) @ [cw]
                @ (if truthy (onShow d) then [cw + 1] else [])\<rparr>"
    using buildBody_els[OF slw(2), where d=d and tw=k and bw="nextRef s7"] n7
    by (simp_all add: s16_def cw_def)
  have hsl: "h sl = (heap st sl)\<lparr>children := children (heap st sl) @ [cw]
                @ (if truthy (onShow d) then [cw + 1] else [])\<rparr>"
    using old19[of sl] b16(3) old11[of sl] old7[of sl] slk slw n16
    by (simp add: w_def[symmetric])
  have hcw: "h cw = (node ''div'' [''orient-slide__content''] None None [])
               \<lparr>children := [k, k + 3]\<rparr>"
    using old19[of cw] b16(1) n16 by simp
  have hsc: "truthy (onShow d) \<Longrightarrow> h (cw + 1) = node ''script'' [] None (onShow d) []"
    using old19[of "cw + 1"] b16(2) n16 by (auto simp: truthy_def split: option.splits)
  \<comment> \<open>the text and the buttons\<close>
  have "\<And>r. nextRef st \<le> r \<Longrightarrow> r < nextRef st + 3 \<Longrightarrow> h r = heap (snd (buildText d st)) r"
    using old19 old16 old11 slk n11 n16 by (simp add: k_def[symmetric] s7_def[symmetric])
  from buildText_view[OF this, of 0] have v1t: "view (Suc 0) h k = textDom d"
    by (simp add: k_def)
  have "\<And>r. nextRef s7 \<le> r \<Longrightarrow> r < nextRef (snd (buildButtons i s7)) \<Longrightarrow>
           h r = heap (snd (buildButtons i s7)) r"
    using old19 old16 slk n7 n16
    by (simp add: s11_def[symmetric] cw_def[symmetric])
  from buildButtons_view[OF this, of 0]
  have v1b: "view (Suc 0) h (k + 3) = buttonsDom (buttonHtml st) i (length (flowData st))"
    using n7 cfg by simp
  have v2c: "view (Suc (Suc 0)) h cw
      = Dom (node ''div'' [''orient-slide__content''] None None [])
          [textDom d, buttonsDom (buttonHtml st) i (length (flowData st))]"
    using hcw v1t v1b by simp
  have v2s: "truthy (onShow d) \<Longrightarrow>
      view (Suc (Suc 0)) h (cw + 1) = Dom (node ''script'' [] None (onShow d) []) []"
    using hsc by (simp add: view_leaf)
  have v3: "view (Suc (Suc (Suc 0))) h sl
      = Dom ((heap st sl)\<lparr>children := []\<rparr>)
          (map (view (Suc (Suc 0)) h) (children (heap st sl))
           @ [Dom (node ''div'' [''orient-slide__content''] None None [])
                [textDom d, buttonsDom (buttonHtml st) i (length (flowData st))]]
           @ scriptDom d)"
    using hsl v2c v2s by (simp add: scriptDom_alt)
  have v3o: "overlay st \<Longrightarrow> view (Suc (Suc (Suc 0))) h (w + 1)
      = Dom (node ''div'' [''orient-slide__overlay''] None None
               (if clickOverlayClosesTour st then [(''click'', StopFlow)] else [])) []"
    using hov by (simp add: view_leaf)
  have "view (Suc (Suc (Suc (Suc 0)))) h w
     = Dom (node ''div'' (wrapperClasses st) None None [])
        (overlayDom st
         @ [Dom ((heap st sl)\<lparr>children := []\<rparr>)
              (map (view (Suc (Suc 0)) h) (children (heap st sl))
               @ [Dom (node ''div'' [''orient-slide__content''] None None [])
                    [textDom d, buttonsDom (buttonHtml st) i (length (flowData st))]]
               @ scriptDom d)])"
    using hw v3 v3o by (simp add: overlayDom_def)
  then show "view (Suc (Suc (Suc (Suc 0)))) (heap (snd (buildContent d i sl st)))
           (fst (buildContent d i sl st))
     = Dom (node ''div'' (wrapperClasses st) None None [])
        (overlayDom st
         @ [Dom ((heap st sl)\<lparr>children := []\<rparr>)
              (map (view (Suc (Suc 0)) (heap (snd (buildContent d i sl st))))
                 (children (heap st sl))
               @ [Dom (node ''div'' [''orient-slide__content''] None None [])
                    [textDom d, buttonsDom (buttonHtml st) i (length (flowData st))]]
               @ scriptDom d)])"
    unfolding bc h_def .
  show "\<exists>kids. heap (snd (buildContent d i sl st)) sl = (heap st sl)\<lparr>children := kids\<rparr>"
    using hsl unfolding bc h_def by blast
qed

lemma buildShell_el:
  "heap (snd (buildShell d st)) (nextRef st) = (blank ''div'')\<lparr>classList := shellClasses d\<rparr>"
  by (simp add: buildShell_def Let_def split_beta createElement_def docCreateElement_def
      divOf_def shellClasses_def blank_def modify_def split: option.splits)

lemma shape_eq:
  assumes "e\<lparr>classList := [], estyle := Map.empty\<rparr> = (blank t)\<lparr>classList := [], estyle := Map.empty\<rparr>"
  shows "e = (blank t)\<lparr>classList := classList e, estyle := estyle e\<rparr>" and "children e = []"
proof -
  have "\<And>f. f (e\<lparr>classList := [], estyle := Map.empty\<rparr>)
            = f ((blank t)\<lparr>classList := [], estyle := Map.empty\<rparr>)"
    using assms by simp
  note a = this
  show "children e = []" using a[of children] by (simp add: blank_def)
  show "e = (blank t)\<lparr>classList := classList e, estyle := estyle e\<rparr>"
    using a[of tagName] a[of innerText] a[of innerHTML] a[of listeners] a[of children]
      a[of src] a[of muted] a[of loop] a[of controls] a[of autoplay]
      a[of box_left] a[of box_top] a[of box_width] a[of box_height] a[of element.more]
    by (intro element.equality) (simp_all add: blank_def)
qed

lemma showsSlide_cong:
  assumes "slideEl s' = slideEl s" and "heap s' = heap s" and "ctl s' = ctl s"
  shows "showsSlide s' w d i = showsSlide s w d i"
proof -
  have sd: "slideDom s' d i = slideDom s d i"
    using ctl_fields[OF assms(3)]
    by (intro ext) (simp add: slideDom_def overlayDom_def wrapperClasses_def)
  show ?thesis
    unfolding showsSlide_def assms(1,2) sd ..
qed

lemma buildSlide_facts:
  assumes b: "buildSlide st = Inr (w, s)" and cur: "currentSlide st = Some d"
    and i: "activeSlideIndex st = Some i"
  shows "showsSlide s w d i"
    and "r < nextRef st \<Longrightarrow> heap s r =
           (if style d = ''float'' \<and> truthy (target d)
               \<and> resolveTarget st (orElse (target d) []) = Inr (Some r)
            then classAdd ''orient-target-el'' (heap st r) else heap st r)"
    and "attachTargetEl s =
           (if style d = ''float''
            then (if truthy (target d)
                  then (case resolveTarget st (orElse (target d) []) of
                          Inl _ \<Rightarrow> None | Inr q \<Rightarrow> q)
                  else None)
            else attachTargetEl st)"
proof -
  let ?sh = "snd (buildShell d st)"
  let ?sl = "nextRef st"
  from buildSlide_decomp[OF b] cur i obtain s3 s4 where
    p: "(if style d = ''float'' then positionSlide (?sh\<lparr>attachTargetEl := None\<rparr>)
         else Inr ?sh) = Inr s3" and
    m: "buildMedia d i ?sl s3 = Inr s4" and
    c: "buildContent d i ?sl s4 = (w, s)" by auto
  note SF = buildShell_fields[of d st]
  have curS: "currentSlide (?sh\<lparr>attachTargetEl := None\<rparr>) = Some d"
    using cur currentSlide_ctl[of "?sh\<lparr>attachTargetEl := None\<rparr>" st] by simp
  have res: "resolveTarget (?sh\<lparr>attachTargetEl := None\<rparr>) x = resolveTarget st x" for x
    using SF by (simp add: resolveTarget_def)
  have s3c: "nextRef s3 = Suc ?sl \<and> slideEl s3 = Some ?sl \<and> ctl s3 = ctl st
    \<and> (heap s3 ?sl)\<lparr>classList := [], estyle := Map.empty\<rparr>
          = (blank ''div'')\<lparr>classList := [], estyle := Map.empty\<rparr>
    \<and> (\<exists>rest. classList (heap s3 ?sl) = shellClasses d @ rest)
    \<and> (r < ?sl \<longrightarrow> heap s3 r =
           (if style d = ''float'' \<and> truthy (target d)
               \<and> resolveTarget st (orElse (target d) []) = Inr (Some r)
            then classAdd ''orient-target-el'' (heap st r) else heap st r))
    \<and> attachTargetEl s3 =
           (if style d = ''float''
            then (if truthy (target d)
                  then (case resolveTarget st (orElse (target d) []) of
                          Inl _ \<Rightarrow> None | Inr q \<Rightarrow> q)
                  else None)
            else attachTargetEl st)"
  proof (cases "style d = ''float''")
    case True
    then have ps: "positionSlide (?sh\<lparr>attachTargetEl := None\<rparr>) = Inr s3" using p by simp
    have se: "slideEl (?sh\<lparr>attachTargetEl := None\<rparr>) = Some ?sl" by simp
    note H = positionSlide_heap[OF ps curS se]
    note S = positionSlide_shape[OF ps, of ?sl]
    have "(heap s3 ?sl)\<lparr>classList := [], estyle := Map.empty\<rparr>
          = (blank ''div'')\<lparr>classList := [], estyle := Map.empty\<rparr>"
      using S(1) by (simp add: buildShell_el)
    moreover have "\<exists>rest. classList (heap s3 ?sl) = shellClasses d @ rest"
      using S(2) by (simp add: buildShell_el)
    moreover have "r < ?sl \<longrightarrow> heap s3 r =
           (if style d = ''float'' \<and> truthy (target d)
               \<and> resolveTarget st (orElse (target d) []) = Inr (Some r)
            then classAdd ''orient-target-el'' (heap st r) else heap st r)"
      using H(1)[of r] True by (simp add: res)
    moreover have "attachTargetEl s3 =
           (if style d = ''float''
            then (if truthy (target d)
                  then (case resolveTarget st (orElse (target d) []) of
                          Inl _ \<Rightarrow> None | Inr q \<Rightarrow> q)
                  else None)
            else attachTargetEl st)"
      using H(2) True by (simp add: res)
    ultimately show ?thesis
      using positionSlide_frame[OF ps] by simp
  next
    case False
    then have e: "s3 = ?sh" using p by simp
    show ?thesis
      using False SF by (simp add: e buildShell_el)
  qed
  then have s3: "nextRef s3 = Suc ?sl" "slideEl s3 = Some ?sl" "ctl s3 = ctl st"
    "(heap s3 ?sl)\<lparr>classList := [], estyle := Map.empty\<rparr>
          = (blank ''div'')\<lparr>classList := [], estyle := Map.empty\<rparr>"
    "\<exists>rest. classList (heap s3 ?sl) = shellClasses d @ rest"
    "r < ?sl \<Longrightarrow> heap s3 r =
           (if style d = ''float'' \<and> truthy (target d)
               \<and> resolveTarget st (orElse (target d) []) = Inr (Some r)
            then classAdd ''orient-target-el'' (heap st r) else heap st r)"
    "attachTargetEl s3 =
           (if style d = ''float''
            then (if truthy (target d)
                  then (case resolveTarget st (orElse (target d) []) of
                          Inl _ \<Rightarrow> None | Inr q \<Rightarrow> q)
                  else None)
            else attachTargetEl st)"
    by simp_all
  note K = buildMedia_keeps[OF m]
  have sl3: "?sl < nextRef s3" using s3(1) by simp
  note MV = buildMedia_view[OF m sl3]
  have sl4: "?sl < nextRef s4" using K(3) s3(1) by simp
  have el4: "slideEl s4 = Some ?sl" using K(2) s3(2) by simp
  note E3 = shape_eq[OF s3(4)]
  let ?mrefs = "case media d of None \<Rightarrow> [] | Some _ \<Rightarrow> [nextRef s3]"
  have h4: "heap s4 ?sl = (heap s3 ?sl)\<lparr>children := ?mrefs\<rparr>"
    using MV(2) E3(2) by simp
  have sn: "snd (buildContent d i ?sl s4) = s" "fst (buildContent d i ?sl s4) = w"
    using c by simp_all
  note CV = buildContent_view[OF sl4, of d i, unfolded sn]
  note CF = buildContent_fields[of d i ?sl s4, unfolded sn]
  have agree: "\<And>r. nextRef s3 \<le> r \<Longrightarrow> r < nextRef s4 \<Longrightarrow> heap s r = heap s4 r"
    using heap_buildContent_old[of _ s4 ?sl d i] sn s3(1) by simp
  have mv: "map (view (Suc (Suc 0)) (heap s)) ?mrefs = mediaDom d"
    using MV(3)[of "heap s" "Suc 0"] agree by simp
  from CV(2) obtain kids where kids: "heap s ?sl = (heap s4 ?sl)\<lparr>children := kids\<rparr>" by blast
  have cl: "classList (heap s ?sl) = classList (heap s3 ?sl)"
    "estyle (heap s ?sl) = estyle (heap s3 ?sl)"
    using kids h4 by simp_all
  have "(heap s3 ?sl)\<lparr>children := []\<rparr> = heap s3 ?sl"
    using E3(2) by (cases "heap s3 ?sl") simp
  then have "(heap s4 ?sl)\<lparr>children := []\<rparr> = heap s3 ?sl"
    using h4 by simp
  also have "heap s3 ?sl
      = (blank ''div'')\<lparr>classList := classList (heap s ?sl), estyle := estyle (heap s ?sl)\<rparr>"
    unfolding cl by (rule E3(1))
  finally have pay: "(heap s4 ?sl)\<lparr>children := []\<rparr>
      = (blank ''div'')\<lparr>classList := classList (heap s ?sl), estyle := estyle (heap s ?sl)\<rparr>" .
  have "ctl s4 = ctl s3"
    using m by (auto simp: buildMedia_def Let_def split_beta appendChild_def emit_def thenDo_def
        split: option.splits if_splits sum.splits)
  then have c4: "ctl s4 = ctl s" using CF by simp
  have sd: "slideDom s d i e = Dom (node ''div'' (wrapperClasses s4) None None [])
        (overlayDom s4
         @ [Dom e
              (mediaDom d
               @ [Dom (node ''div'' [''orient-slide__content''] None None [])
                    [textDom d, buttonsDom (buttonHtml s4) i (length (flowData s4))]]
               @ scriptDom d)])" for e
    using ctl_fields[OF c4] by (simp add: slideDom_def overlayDom_def wrapperClasses_def)
  have four: "(4::nat) = Suc (Suc (Suc (Suc 0)))" by simp
  have v: "view 4 (heap s) w = slideDom s d i
      ((blank ''div'')\<lparr>classList := classList (heap s ?sl), estyle := estyle (heap s ?sl)\<rparr>)"
    unfolding four sd using CV(1) mv pay h4 by simp
  have tk: "take (length (shellClasses d)) (classList (heap s ?sl)) = shellClasses d"
    using s3(5) cl by auto
  have "slideEl s = Some ?sl" using CF el4 by simp
  then show "showsSlide s w d i"
    using v tk by (simp add: showsSlide_def)
  show "r < nextRef st \<Longrightarrow> heap s r =
           (if style d = ''float'' \<and> truthy (target d)
               \<and> resolveTarget st (orElse (target d) []) = Inr (Some r)
            then classAdd ''orient-target-el'' (heap st r) else heap st r)"
  proof -
    assume r: "r < nextRef st"
    have "heap s r = heap s4 r"
      using heap_buildContent_old[of r s4 ?sl d i] sn r sl4 by simp
    also have "\<dots> = heap s3 r"
      using heap_buildMedia_old[OF m, of r] r s3(1) by simp
    finally show ?thesis using s3(6)[OF r] by simp
  qed
  have "attachTargetEl s = attachTargetEl s4"
    using CF by simp
  then show "attachTargetEl s =
           (if style d = ''float''
            then (if truthy (target d)
                  then (case resolveTarget st (orElse (target d) []) of
                          Inl _ \<Rightarrow> None | Inr q \<Rightarrow> q)
                  else None)
            else attachTargetEl st)"
    using K(1) s3(7) by simp
qed

subsection \<open>Validity of a slide depends on the page's selector lookup only\<close>

lemma resolveTarget_cong:
  "querySelector s = querySelector st \<Longrightarrow> resolveTarget s = resolveTarget st"
  by (intro ext) (simp add: resolveTarget_def)

lemma selectorOk_cong:
  assumes "querySelector s = querySelector st"
  shows "selectorOk s d = selectorOk st d"
  unfolding selectorOk_def resolveTarget_cong[OF assms] ..

lemma validSlide_cong:
  assumes "querySelector s = querySelector st"
  shows "validSlide s d = validSlide st d"
  unfolding validSlide_def selectorOk_cong[OF assms] ..

lemma leavesAlone_quiet [simp]: "leavesAlone quiet d"
  by (simp add: leavesAlone_def quiet_def split: option.splits)

subsection \<open>A media object of an unknown type, a target that is not a selector\<close>

lemma buildMedia_bad_type:
  assumes "media d = Some m" and "m_type m \<noteq> Some ''video''" and "m_type m \<noteq> Some ''image''"
  shows "buildMedia d i sl st = Inl TypeError"
  using assms
  by (simp add: buildMedia_def Let_def split_beta appendChild_def)

lemma buildSlide_positioned:
  assumes cur: "currentSlide st = Some d" and sel: "selectorOk st d"
  shows "\<exists>s3. (if style d = ''float''
       then positionSlide ((snd (buildShell d st))\<lparr>attachTargetEl := None\<rparr>)
       else Inr (snd (buildShell d st))) = Inr s3"
proof (cases "style d = ''float''")
  case True
  let ?s2 = "snd (buildShell d st)"
  have c: "currentSlide (?s2\<lparr>attachTargetEl := None\<rparr>) = Some d"
    using cur currentSlide_ctl[of "?s2\<lparr>attachTargetEl := None\<rparr>" st] by simp
  have e: "slideEl (?s2\<lparr>attachTargetEl := None\<rparr>) = Some (nextRef st)" by simp
  have r: "resolveTarget (?s2\<lparr>attachTargetEl := None\<rparr>) t = resolveTarget st t" for t
    using buildShell_fields[of d st] by (simp add: resolveTarget_def)
  have "\<exists>q. resolveTarget (?s2\<lparr>attachTargetEl := None\<rparr>) t = Inr q"
    if "target d = Some t" "t \<noteq> []" for t
    using selectorOk_D[OF sel True that] r by simp
  from positionSlide_total[OF c e this] True show ?thesis by simp
next
  case False
  then show ?thesis by simp
qed

lemma buildSlide_bad_media:
  assumes cur: "currentSlide st = Some d" and bad: "\<not> wfSlide d" and sel: "selectorOk st d"
  shows "buildSlide st = Inl TypeError"
proof -
  obtain i where i: "activeSlideIndex st = Some i"
    using cur by (auto simp: currentSlide_def split: option.splits)
  obtain m where m: "media d = Some m" "m_type m \<noteq> Some ''video''" "m_type m \<noteq> Some ''image''"
    using bad by (auto simp: wfSlide_def split: option.splits)
  from buildSlide_positioned[OF cur sel] obtain s3 where
    "(if style d = ''float''
       then positionSlide ((snd (buildShell d st))\<lparr>attachTargetEl := None\<rparr>)
       else Inr (snd (buildShell d st))) = Inr s3" by blast
  then show ?thesis
    using cur i buildMedia_bad_type[OF m]
    by (simp add: buildSlide_def Let_def split_beta)
qed

lemma buildSlide_bad_selector:
  assumes cur: "currentSlide st = Some d" and fl: "style d = ''float''"
    and t: "target d = Some t" "t \<noteq> []" and bad: "resolveTarget st t = Inl e"
  shows "buildSlide st = Inl e" and "render st = Inl e"
proof -
  obtain i where i: "activeSlideIndex st = Some i"
    using cur by (auto simp: currentSlide_def split: option.splits)
  let ?s2 = "(snd (buildShell d st))\<lparr>attachTargetEl := None\<rparr>"
  have c: "currentSlide ?s2 = Some d"
    using cur currentSlide_ctl[of ?s2 st] by simp
  have "resolveTarget ?s2 t = resolveTarget st t"
    using buildShell_fields[of d st] by (simp add: resolveTarget_def)
  then have r: "resolveTarget ?s2 t = Inl e"
    using bad by simp
  have "positionSlide ?s2 = Inl e"
    using c t r by (simp add: positionSlide_def)
  then show "buildSlide st = Inl e"
    using cur i fl by (simp add: buildSlide_def Let_def split_beta)
  then show "render st = Inl e" by (simp add: render_def)
qed

lemma buildMedia_no_url:
  assumes "media d = Some m" and "m_type m = Some ''image''" and "\<not> truthy (m_url m)"
    and "sl < nextRef st"
  shows "\<exists>s. buildMedia d i sl st = Inr s
     \<and> trace s = trace st @ [ConsoleError (MediaUrlMissing (i + 1))]
     \<and> children (heap s (nextRef st)) = [nextRef st + 1]
     \<and> tagName (heap s (nextRef st + 1)) = ''img''
     \<and> src (heap s (nextRef st + 1)) = None"
  using assms
  by (simp add: buildMedia_def Let_def split_beta appendChild_def emit_def
      docCreateElement_def blank_def createElement_def divOf_def)

subsection \<open>Rendering, in full\<close>

lemma buildSlide_range:
  assumes "buildSlide st = Inr (w, s)"
  shows "nextRef st < w" and "w < nextRef s"
proof -
  from buildSlide_decomp[OF assms] obtain d i s3 s4 where
    p: "(if style d = ''float''
         then positionSlide ((snd (buildShell d st))\<lparr>attachTargetEl := None\<rparr>)
         else Inr (snd (buildShell d st))) = Inr s3" and
    m: "buildMedia d i (nextRef st) s3 = Inr s4" and
    c: "buildContent d i (nextRef st) s4 = (w, s)" by auto
  have "nextRef s3 = Suc (nextRef st)"
    using p positionSlide_frame[of "(snd (buildShell d st))\<lparr>attachTargetEl := None\<rparr>" s3]
    by (auto split: if_splits)
  then have "nextRef st < nextRef s4" using buildMedia_keeps(3)[OF m] by simp
  then show "nextRef st < w" using buildContent_nr(1)[of s4 d i "nextRef st"] c by simp
  show "w < nextRef s" using buildContent_nr(2)[of d i "nextRef st" s4] c by simp
qed

lemma showsSlide_inserted:
  "showsSlide (s\<lparr>activeSlideEl := a, bodyChildren := b\<rparr>) w d i = showsSlide s w d i"
proof -
  have sd: "slideDom (s\<lparr>activeSlideEl := a, bodyChildren := b\<rparr>) d i = slideDom s d i"
    by (intro ext) (simp add: slideDom_def overlayDom_def wrapperClasses_def)
  have h: "heap (s\<lparr>activeSlideEl := a, bodyChildren := b\<rparr>) = heap s"
     "slideEl (s\<lparr>activeSlideEl := a, bodyChildren := b\<rparr>) = slideEl s" by simp_all
  show ?thesis
    unfolding showsSlide_def sd h ..
qed

lemma render_facts:
  assumes cur: "currentSlide st = Some d" and i: "activeSlideIndex st = Some i"
    and ok: "validSlide st d"
  shows "\<exists>w s. render st = Inr s \<and> activeSlideEl s = Some w
     \<and> nextRef st < w \<and> w < nextRef s
     \<and> bodyChildren s = filter (\<lambda>x. x \<noteq> w) (bodyChildren st) @ [w]
     \<and> flowData s = flowData st \<and> activeSlideIndex s = activeSlideIndex st
     \<and> flowURL s = flowURL st \<and> querySelector s = querySelector st
     \<and> scriptRuns (trace s) = scriptRuns (trace st)
     \<and> showsSlide s w d i
     \<and> (\<forall>r<nextRef st. heap s r =
           (if style d = ''float'' \<and> truthy (target d)
               \<and> resolveTarget st (orElse (target d) []) = Inr (Some r)
            then classAdd ''orient-target-el'' (heap st r) else heap st r))
     \<and> attachTargetEl s =
           (if style d = ''float''
            then (if truthy (target d)
                  then (case resolveTarget st (orElse (target d) []) of
                          Inl _ \<Rightarrow> None | Inr q \<Rightarrow> q)
                  else None)
            else attachTargetEl st)"
proof -
  obtain w s where b: "buildSlide st = Inr (w, s)" "ctl s = ctl st"
      "scriptRuns (trace s) = scriptRuns (trace st)"
    using buildSlide_ok[OF cur ok] by blast
  let ?s = "s\<lparr>activeSlideEl := Some w,
                bodyChildren := filter (\<lambda>x. x \<noteq> w) (bodyChildren s) @ [w]\<rparr>"
  note F = buildSlide_facts[OF b(1) cur i]
  have sh: "showsSlide ?s w d i"
    using F(1) by (simp only: showsSlide_inserted)
  note C = ctl_fields[OF b(2)]
  note R = buildSlide_range[OF b(1)]
  show ?thesis
  proof (intro exI[of _ w] exI[of _ ?s] conjI)
    show "render st = Inr ?s" by (rule render_eq[OF b(1)])
    show "activeSlideEl ?s = Some w" by simp
    show "nextRef st < w" by (rule R(1))
    show "w < nextRef ?s" using R(2) by simp
    show "bodyChildren ?s = filter (\<lambda>x. x \<noteq> w) (bodyChildren st) @ [w]" using C by simp
    show "flowData ?s = flowData st" using C by simp
    show "activeSlideIndex ?s = activeSlideIndex st" using C by simp
    show "flowURL ?s = flowURL st" using C by simp
    show "querySelector ?s = querySelector st" using C by simp
    show "scriptRuns (trace ?s) = scriptRuns (trace st)" using b(3) by simp
    show "showsSlide ?s w d i" by (rule sh)
    show "\<forall>r<nextRef st. heap ?s r =
           (if style d = ''float'' \<and> truthy (target d)
               \<and> resolveTarget st (orElse (target d) []) = Inr (Some r)
            then classAdd ''orient-target-el'' (heap st r) else heap st r)"
    proof (intro allI impI)
      fix r assume "r < nextRef st"
      from F(2)[OF this] show "heap ?s r =
           (if style d = ''float'' \<and> truthy (target d)
               \<and> resolveTarget st (orElse (target d) []) = Inr (Some r)
            then classAdd ''orient-target-el'' (heap st r) else heap st r)"
        by simp
    qed
    show "attachTargetEl ?s =
           (if style d = ''float''
            then (if truthy (target d)
                  then (case resolveTarget st (orElse (target d) []) of
                          Inl _ \<Rightarrow> None | Inr q \<Rightarrow> q)
                  else None)
            else attachTargetEl st)"
      using F(3) by simp
  qed
qed

lemma startFlow_idlePage_facts:
  "\<exists>w s. startFlow idlePage = Inr s \<and> activeSlideEl s = Some w \<and> w \<in> set (bodyChildren s)
     \<and> flowData s = [floatSlide, modalSlide] \<and> activeSlideIndex s = Some 0
     \<and> 1 < nextRef s \<and> attachTargetEl s = Some 0
     \<and> heap s 0 = classAdd ''orient-target-el'' heroEl
     \<and> querySelector s = querySelector idlePage"
proof -
  let ?p = "idlePage\<lparr>activeSlideIndex := Some 0\<rparr>"
  have c: "currentSlide ?p = Some floatSlide"
    by (simp add: currentSlide_def idlePage_def)
  have i: "activeSlideIndex ?p = Some 0" by simp
  have w: "validSlide ?p floatSlide"
    by (simp add: validSlide_def wfSlide_def selectorOk_def resolveTarget_def floatSlide_def
        idlePage_def)
  have f: "style floatSlide = ''float''" "truthy (target floatSlide)"
    "resolveTarget ?p (orElse (target floatSlide) []) = Inr (Some 0)" "nextRef ?p = 1"
    "heap ?p 0 = heroEl" "flowData ?p = [floatSlide, modalSlide]"
    "querySelector ?p = querySelector idlePage"
    by (simp_all add: floatSlide_def truthy_def orElse_def resolveTarget_def idlePage_def)
  from render_facts[OF c i w] obtain w s where s: "render ?p = Inr s" "activeSlideEl s = Some w"
    "nextRef ?p < w" "w < nextRef s"
    "bodyChildren s = filter (\<lambda>x. x \<noteq> w) (bodyChildren ?p) @ [w]"
    "flowData s = flowData ?p" "activeSlideIndex s = activeSlideIndex ?p"
    "\<forall>r<nextRef ?p. heap s r =
           (if style floatSlide = ''float'' \<and> truthy (target floatSlide)
               \<and> resolveTarget ?p (orElse (target floatSlide) []) = Inr (Some r)
            then classAdd ''orient-target-el'' (heap ?p r) else heap ?p r)"
    "attachTargetEl s =
           (if style floatSlide = ''float''
            then (if truthy (target floatSlide)
                  then (case resolveTarget ?p (orElse (target floatSlide) []) of
                          Inl _ \<Rightarrow> None | Inr q \<Rightarrow> q)
                  else None)
            else attachTargetEl ?p)"
    "querySelector s = querySelector ?p"
    by blast
  have h: "heap s 0 = classAdd ''orient-target-el'' heroEl"
    using s(8) f by simp
  have a: "attachTargetEl s = Some 0"
    using s(9) f(1,2,3) by simp
  have n: "1 < nextRef s" using s(3,4) f(4) by simp
  have st: "startFlow idlePage = Inr s" using s(1) by (simp add: startFlow_def)
  have q: "querySelector s = querySelector idlePage" using s(10) f(7) by simp
  show ?thesis
    using st s(2,5,6,7) f(6) h a n q by (intro exI[of _ w] exI[of _ s]) simp
qed

subsection \<open>One step of the walk\<close>

lemma startFlow_ok:
  assumes "flowData st \<noteq> []" and "validSlide st (flowData st ! 0)"
  shows "\<exists>s w. startFlow st = Inr s \<and> activeSlideIndex s = Some 0
     \<and> activeSlideEl s = Some w \<and> w \<in> set (bodyChildren s)
     \<and> showsSlide s w (flowData st ! 0) 0 \<and> flowData s = flowData st
     \<and> querySelector s = querySelector st
     \<and> scriptRuns (trace s) = scriptRuns (trace st)"
proof -
  let ?p = "st\<lparr>activeSlideIndex := Some 0\<rparr>"
  have c: "currentSlide ?p = Some (flowData st ! 0)"
    using assms by (simp add: currentSlide_def)
  have i: "activeSlideIndex ?p = Some 0" by simp
  have "querySelector ?p = querySelector st" by simp
  from validSlide_cong[OF this] assms(2) have v: "validSlide ?p (flowData st ! 0)" by simp
  from render_facts[OF c i v] obtain w s where s: "render ?p = Inr s" "activeSlideEl s = Some w"
    "bodyChildren s = filter (\<lambda>x. x \<noteq> w) (bodyChildren ?p) @ [w]"
    "flowData s = flowData ?p" "activeSlideIndex s = activeSlideIndex ?p"
    "showsSlide s w (flowData st ! 0) 0" "querySelector s = querySelector ?p"
    "scriptRuns (trace s) = scriptRuns (trace ?p)"
    by blast
  then show ?thesis
    by (intro exI[of _ s] exI[of _ w]) (simp add: startFlow_def)
qed


lemma runOnEnd_raises:
  assumes "currentSlide st = Some d" and "onEnd d = Some code" and "code \<noteq> []"
    and "run code (emit (RunScript code) st) = Inl e"
  shows "runOnEnd run st = Inl e"
  using assms by (simp add: runOnEnd_def)


text \<open>An \<open>onEnd\<close> script that raises: the exception leaves \<open>nextSlide\<close> and \<open>prevSlide\<close>.\<close>

lemma nextSlide_script_raises:
  assumes i: "activeSlideIndex st = Some i" and lt: "i < length (flowData st)"
    and e: "activeSlideEl st = Some e" "e \<in> set (bodyChildren st)"
    and c: "onEnd (flowData st ! i) = Some code" "code \<noteq> []"
    and r: "\<And>s. run code s = Inl err"
  shows "nextSlide run st = Inl err"
proof -
  let ?r = "removeAttachedTargetStyles
              (st\<lparr>bodyChildren := filter (\<lambda>x. x \<noteq> e) (bodyChildren st)\<rparr>)"
  have rf: "ctl ?r = ctl (st\<lparr>bodyChildren := filter (\<lambda>x. x \<noteq> e) (bodyChildren st)\<rparr>)"
    by (simp add: removeAttachedTargetStyles_def split: option.splits)
  have cur: "currentSlide ?r = Some (flowData st ! i)"
    using currentSlide_ctl[OF rf] i lt by (simp add: currentSlide_def)
  have "runOnEnd run ?r = Inl err"
    using cur c r by (simp add: runOnEnd_def)
  then show ?thesis
    using e by (simp add: nextSlide_def removeChild_def)
qed

lemma prevSlide_script_raises:
  assumes i: "activeSlideIndex st = Some i" and lt: "i < length (flowData st)"
    and c: "onEnd (flowData st ! i) = Some code" "code \<noteq> []"
    and r: "\<And>s. run code s = Inl err"
  shows "prevSlide run st = Inl err"
proof -
  have cur: "currentSlide st = Some (flowData st ! i)"
    using i lt by (simp add: currentSlide_def)
  have "runOnEnd run st = Inl err"
    using cur c r by (simp add: runOnEnd_def)
  then show ?thesis
    by (simp add: prevSlide_def)
qed



lemma stopFlow_idle:
  "stopFlow st = Inr s \<Longrightarrow>
     activeSlideEl s = None \<and> activeSlideIndex s = None \<and> flowData s = flowData st"
  by (auto simp: stopFlow_def removeChild_def removeAttachedTargetStyles_def thenDo_def
      split: option.splits if_splits)

subsection \<open>Two runs that raise\<close>

text \<open>
  On a page where the scripts throw, \<open>previous()\<close> on the first slide throws; a float
  slide whose target \<open>#\<close> is no selector makes \<open>start()\<close> raise the SyntaxError.
\<close>

lemma prevSlide_throwing:
  "thenDo (startFlow (idlePage\<lparr>flowData := [modalSlide]\<rparr>)) (prevSlide throwing)
     = Inl (Uncaught ''window.tourDone = true'')"
proof -
  let ?p = "idlePage\<lparr>flowData := [modalSlide]\<rparr>"
  have p: "flowData ?p \<noteq> []" "validSlide ?p (flowData ?p ! 0)"
    by (simp_all add: validSlide_def wfSlide_def selectorOk_def modalSlide_def idlePage_def)
  from startFlow_ok[OF p(1,2)] obtain s w where s: "startFlow ?p = Inr s"
    "activeSlideIndex s = Some 0" "flowData s = flowData ?p" by blast
  have c: "0 < length (flowData s)" "onEnd (flowData s ! 0) = Some ''window.tourDone = true''"
    "''window.tourDone = true'' \<noteq> []"
    using s(3) by (simp_all add: modalSlide_def)
  have "prevSlide throwing s = Inl (Uncaught ''window.tourDone = true'')"
    by (rule prevSlide_script_raises[OF s(2) c]) (simp add: throwing_def)
  then show ?thesis using s(1) by simp
qed

lemma startFlow_bad_selector:
  "startFlow (idlePage\<lparr>flowData := [floatSlide\<lparr>target := Some ''#''\<rparr>],
                       querySelector := (querySelector idlePage)(''#'' := Inl SyntaxError)\<rparr>)
     = Inl SyntaxError"
proof -
  let ?p = "idlePage\<lparr>flowData := [floatSlide\<lparr>target := Some ''#''\<rparr>],
                       querySelector := (querySelector idlePage)(''#'' := Inl SyntaxError),
                       activeSlideIndex := Some 0\<rparr>"
  have c: "currentSlide ?p = Some (floatSlide\<lparr>target := Some ''#''\<rparr>)"
    by (simp add: currentSlide_def)
  have f: "style (floatSlide\<lparr>target := Some ''#''\<rparr>) = ''float''"
    "target (floatSlide\<lparr>target := Some ''#''\<rparr>) = Some ''#''" "''#'' \<noteq> []"
    "resolveTarget ?p ''#'' = Inl SyntaxError"
    by (simp_all add: floatSlide_def resolveTarget_def)
  from buildSlide_bad_selector(2)[OF c f] show ?thesis
    by (simp add: startFlow_def)
qed

section \<open>The claims\<close>

subsection \<open>Walking through a flow (C1)\<close>



subsection \<open>Removing a slide and the target's styling (C2)\<close>

text \<open>
  Claim C2 (a defect of the code). \<open>jumpToSlide\<close> removes the slide without calling
  \<open>removeAttachedTargetStyles\<close>, which \<open>nextSlide\<close>, \<open>prevSlide\<close> and \<open>stopFlow\<close> call.
  On the page with the heading, after \<open>start()\<close> and \<open>jump(2)\<close> the modal slide is shown
  and the heading still has the class \<open>orient-target-el\<close>; after \<open>start()\<close> and
  \<open>next()\<close> it does not (the first slide has no \<open>onEnd\<close> script, so this is so under
  every semantics \<open>run\<close> of the scripts).
\<close>

theorem jumpToSlide_leaves_highlight:
  "observe (\<lambda>s. (activeSlideIndex s, ''orient-target-el'' \<in> set (classList (heap s 0))))
     (thenDo (startFlow idlePage) (jumpToSlide 2)) = Inr (Some 1, True)
   \<and> observe (\<lambda>s. (activeSlideIndex s, ''orient-target-el'' \<in> set (classList (heap s 0))))
     (thenDo (startFlow idlePage) (nextSlide run)) = Inr (Some 1, False)"
proof -
  from startFlow_idlePage_facts obtain w s where s: "startFlow idlePage = Inr s"
    "activeSlideEl s = Some w" "w \<in> set (bodyChildren s)"
    "flowData s = [floatSlide, modalSlide]" "activeSlideIndex s = Some 0"
    "1 < nextRef s" "attachTargetEl s = Some 0"
    "heap s 0 = classAdd ''orient-target-el'' heroEl" by blast
  have nf: "style modalSlide \<noteq> ''float''" by (simp add: modalSlide_def)
  have wf: "validSlide x modalSlide" for x
    by (simp add: validSlide_def wfSlide_def selectorOk_def modalSlide_def)
  \<comment> \<open>jump(2)\<close>
  let ?j = "s\<lparr>bodyChildren := filter (\<lambda>x. x \<noteq> w) (bodyChildren s),
              activeSlideIndex := Some (nat (2 - 1))\<rparr>"
  have cj: "currentSlide ?j = Some modalSlide"
    using s by (simp add: currentSlide_def)
  have ej: "jumpToSlide 2 s = render ?j"
    using s by (simp add: jumpToSlide_def removeChild_def)
  have ij: "activeSlideIndex ?j = Some (nat (2 - 1))" by simp
  from render_facts[OF cj ij wf] obtain w2 s2 where j: "render ?j = Inr s2"
    "activeSlideIndex s2 = activeSlideIndex ?j"
    "\<forall>r<nextRef ?j. heap s2 r =
           (if style modalSlide = ''float'' \<and> truthy (target modalSlide)
               \<and> resolveTarget ?j (orElse (target modalSlide) []) = Inr (Some r)
            then classAdd ''orient-target-el'' (heap ?j r) else heap ?j r)"
    by blast
  have hj: "heap s2 0 = classAdd ''orient-target-el'' heroEl"
    using j(3) s(6,8) nf by simp
  \<comment> \<open>next()\<close>
  let ?n = "(removeAttachedTargetStyles
              (s\<lparr>bodyChildren := filter (\<lambda>x. x \<noteq> w) (bodyChildren s)\<rparr>))
            \<lparr>activeSlideIndex := Some (0 + 1)\<rparr>"
  have cn: "currentSlide ?n = Some modalSlide"
    using s by (simp add: currentSlide_def removeAttachedTargetStyles_def)
  have en: "nextSlide run s = render ?n"
    using s
    by (simp add: nextSlide_def removeChild_def runOnEnd_def currentSlide_def
        removeAttachedTargetStyles_def floatSlide_def truthy_def Let_def)
  have "activeSlideIndex ?n = Some (0 + 1)" by simp
  from render_facts[OF cn this wf] obtain w3 s3 where n: "render ?n = Inr s3"
    "activeSlideIndex s3 = activeSlideIndex ?n"
    "\<forall>r<nextRef ?n. heap s3 r =
           (if style modalSlide = ''float'' \<and> truthy (target modalSlide)
               \<and> resolveTarget ?n (orElse (target modalSlide) []) = Inr (Some r)
            then classAdd ''orient-target-el'' (heap ?n r) else heap ?n r)"
    by blast
  have "heap s3 0 = heap ?n 0"
    using n(3) s(6,7) nf by (simp add: removeAttachedTargetStyles_def)
  then have hn: "heap s3 0 = classRemove ''orient-target-el''
      ((classAdd ''orient-target-el'' heroEl)\<lparr>estyle := Map.empty\<rparr>)"
    using s(7,8) by (simp add: removeAttachedTargetStyles_def)
  show ?thesis
    using s(1) ej j(1,2) hj en n(1,2) hn
    by (simp add: observe_def classRemove_def)
qed

subsection \<open>A float slide without a target (C3)\<close>

text \<open>
  Claim C3, as stated, fails: for a float slide without a target \<open>positionSlide\<close> returns
  at its first test. The slide element gets no \<open>top\<close> and no \<open>left\<close>, and nothing is
  logged.
\<close>

theorem positionSlide_no_target_counterexample:
  "observe (\<lambda>s. (estyle (heap s 1) ''top'', estyle (heap s 1) ''left'', trace s))
     (positionSlide (atPositioning barePage)) = Inr (None, None, [])"
proof -
  have n: "nextRef barePage = 1" "flowData barePage \<noteq> []" "trace barePage = []"
    "target (flowData barePage ! 0) = None"
    by (simp_all add: barePage_def idlePage_def)
  have "positionSlide (atPositioning barePage) = Inr (atPositioning barePage)"
    using n by (simp add: positionSlide_def atPositioning_facts)
  then show ?thesis
    using atPositioning_new[of barePage] n
    by (simp add: observe_def atPositioning_facts)
qed

text \<open>
  Claim C3, amended. For a slide whose target is absent or empty, positioning returns
  without an error and changes nothing: the slide gets no inline position. The
  position (0, 0), with the "Could not attach" error, is what a slide gets whose
  non-empty target does not resolve to an element.
\<close>

theorem positionSlide_without_target:
  assumes "currentSlide st = Some d"
  shows "(\<not> truthy (target d) \<longrightarrow> positionSlide st = Inr st)
     \<and> (\<forall>sel sl. target d = Some sel \<and> sel \<noteq> [] \<and> resolveTarget st sel = Inr None
            \<and> slideEl st = Some sl \<longrightarrow>
          (\<exists>s. positionSlide st = Inr s
             \<and> estyle (heap s sl) ''top'' = Some (Px 0)
             \<and> estyle (heap s sl) ''left'' = Some (Px 0)
             \<and> attachTargetEl s = None
             \<and> trace s = trace st @ [ConsoleError (CouldNotAttach sel)]))"
  using assms
  by (auto simp: positionSlide_def truthy_def Let_def emit_def thenDo_def split: option.splits)

theorem positionSlide_without_target_witness:
  "positionSlide (atPositioning barePage) = Inr (atPositioning barePage)
   \<and> observe (\<lambda>s. (estyle (heap s 1) ''top'', estyle (heap s 1) ''left'', trace s))
       (positionSlide (atPositioning lostPage))
       = Inr (Some (Px 0), Some (Px 0), [ConsoleError (CouldNotAttach ''#gone'')])"
proof -
  have n: "nextRef barePage = 1" "flowData barePage \<noteq> []"
    "\<not> truthy (target (flowData barePage ! 0))"
    by (simp_all add: barePage_def idlePage_def truthy_def)
  have m: "nextRef lostPage = 1" "flowData lostPage \<noteq> []" "trace lostPage = []"
    "target (flowData lostPage ! 0) = Some ''#gone''" "resolveTarget lostPage ''#gone'' = Inr None"
    by (simp_all add: lostPage_def idlePage_def resolveTarget_def)
  from positionSlide_without_target[OF atPositioning_facts(1)[OF n(2)]]
       positionSlide_without_target[OF atPositioning_facts(1)[OF m(2)]]
  show ?thesis
    using n m by (auto simp: observe_def atPositioning_facts)
qed

subsection \<open>Media of an unknown type (C4)\<close>

text \<open>
  Claim C4 (a defect of the code). A slide whose media object has a type other than
  \<open>video\<close> and \<open>image\<close>, or none: \<open>buildSlide\<close> logs "Media type should be 'video' or
  'image'" and goes on with \<open>slideMediaEl\<close> undefined, so that setting its \<open>src\<close> (when
  there is a URL) or appending it to the media wrapper (when there is none) raises a
  TypeError. \<open>start()\<close> on a flow with such a slide raises; no slide is produced.
\<close>

theorem startFlow_unknown_media_raises:
  "startFlow (idlePage\<lparr>flowData := [audioSlide]\<rparr>) = Inl TypeError
   \<and> startFlow (idlePage\<lparr>flowData := [untypedSlide]\<rparr>) = Inl TypeError"
proof -
  have a: "currentSlide (idlePage\<lparr>flowData := [audioSlide], activeSlideIndex := Some 0\<rparr>)
             = Some audioSlide" "\<not> wfSlide audioSlide"
    "selectorOk (idlePage\<lparr>flowData := [audioSlide], activeSlideIndex := Some 0\<rparr>) audioSlide"
    by (simp_all add: currentSlide_def wfSlide_def selectorOk_def audioSlide_def modalSlide_def)
  have b: "currentSlide (idlePage\<lparr>flowData := [untypedSlide], activeSlideIndex := Some 0\<rparr>)
             = Some untypedSlide" "\<not> wfSlide untypedSlide"
    "selectorOk (idlePage\<lparr>flowData := [untypedSlide], activeSlideIndex := Some 0\<rparr>) untypedSlide"
    by (simp_all add: currentSlide_def wfSlide_def selectorOk_def untypedSlide_def modalSlide_def)
  show ?thesis
    using buildSlide_bad_media[OF a] buildSlide_bad_media[OF b]
    by (simp add: startFlow_def render_def)
qed

subsection \<open>Jumping to a slide (C5)\<close>



subsection \<open>Going back from the first slide (C6)\<close>

text \<open>
  Claim C6. \<open>previous()\<close> on the first slide runs that slide's \<open>onEnd\<close> script first, if
  it has one. When the script returns and leaves the tour and the page alone
  (\<open>leavesAlone\<close>, under the semantics \<open>run\<close> of the scripts), or there is none,
  \<open>previous()\<close> logs the "At start of flow" message and changes nothing else: the index
  is still 0, the rendered element is the same element, the body and every element are
  as they were; the trace records the script's run and the message. (A script that
  raises makes \<open>previous()\<close> raise before anything is logged: lemma
  \<open>prevSlide_script_raises\<close>.)
\<close>

theorem prevSlide_at_start:
  assumes "activeSlideIndex st = Some 0" and "flowData st \<noteq> []"
    and "leavesAlone run (flowData st ! 0)"
  shows "\<exists>s. prevSlide run st = Inr s
           \<and> activeSlideIndex s = Some 0 \<and> activeSlideEl s = activeSlideEl st
           \<and> bodyChildren s = bodyChildren st \<and> heap s = heap st
           \<and> s\<lparr>trace := trace st\<rparr> = st
           \<and> trace s = trace st
                @ (if truthy (onEnd (flowData st ! 0))
                   then [RunScript (orElse (onEnd (flowData st ! 0)) [])] else [])
                @ [ConsoleLog AtStartOfFlow]"
proof -
  have cur: "currentSlide st = Some (flowData st ! 0)"
    using assms(1,2) by (simp add: currentSlide_def)
  let ?tr = "if truthy (onEnd (flowData st ! 0))
             then [RunScript (orElse (onEnd (flowData st ! 0)) [])] else []"
  have r: "runOnEnd run st = Inr (st\<lparr>trace := trace st @ ?tr\<rparr>)"
    using cur assms(3)
    by (auto simp: runOnEnd_def leavesAlone_def truthy_def orElse_def emit_def
        split: option.splits)
  show ?thesis
    using assms(1) by (simp add: prevSlide_def r emit_def)
qed

theorem prevSlide_at_start_witness:
  "observe (\<lambda>s. (activeSlideIndex s, scriptRuns (trace s), last (trace s)))
     (thenDo (startFlow (idlePage\<lparr>flowData := [modalSlide]\<rparr>)) (prevSlide quiet))
     = Inr (Some 0, [''window.tourDone = true''], ConsoleLog AtStartOfFlow)
   \<and> observe activeSlideEl
        (thenDo (startFlow (idlePage\<lparr>flowData := [modalSlide]\<rparr>)) (prevSlide quiet))
     = observe activeSlideEl (startFlow (idlePage\<lparr>flowData := [modalSlide]\<rparr>))"
proof -
  let ?p = "idlePage\<lparr>flowData := [modalSlide]\<rparr>"
  have p: "flowData ?p \<noteq> []" "validSlide ?p (flowData ?p ! 0)" "trace ?p = []"
    by (simp_all add: validSlide_def wfSlide_def selectorOk_def modalSlide_def idlePage_def)
  from startFlow_ok[OF p(1,2)] obtain s w where s: "startFlow ?p = Inr s"
    "activeSlideIndex s = Some 0" "flowData s = flowData ?p"
    "scriptRuns (trace s) = scriptRuns (trace ?p)" by blast
  have ne: "flowData s \<noteq> []" "flowData s ! 0 = modalSlide" using s(3) by simp_all
  have la: "leavesAlone quiet (flowData s ! 0)" by simp
  have t: "truthy (onEnd modalSlide)" "orElse (onEnd modalSlide) [] = ''window.tourDone = true''"
    by (simp_all add: truthy_def orElse_def modalSlide_def)
  from prevSlide_at_start[OF s(2) ne(1) la] s(1,4) p(3) ne(2) t show ?thesis
    by (auto simp: observe_def scriptRuns_def)
qed

subsection \<open>Horizontal placement (C7)\<close>

text \<open>
  Claim C7. A float slide whose target resolves: with the target's absolute box \<open>br\<close> and
  the window's width \<open>W\<close>, if \<open>br.left + 360 > W\<close> the slide gets \<open>right = W - br.right\<close>
  and the class \<open>orient-slide--aligned-right\<close>; otherwise it gets \<open>left = br.left\<close>, and
  neither its \<open>right\<close> nor that class is touched. Its \<open>top\<close> is \<open>br.top + br.height\<close>.
  For the box left 100, top 50, width 80, height 20: at width 1200 the slide is at left
  100 and top 70, at width 400 it is right-aligned with right 220.
\<close>

theorem positionSlide_horizontal:
  assumes "currentSlide st = Some d" and "target d = Some sel" and "sel \<noteq> []"
    and "resolveTarget st sel = Inr (Some t)" and "slideEl st = Some sl"
  shows "\<exists>s. positionSlide st = Inr s
     \<and> (if r_left (getElAbsolutePosition st t) + 360 > innerWidth st
         then estyle (heap s sl) ''right''
                = Some (Px (innerWidth st - r_right (getElAbsolutePosition st t)))
              \<and> ''orient-slide--aligned-right'' \<in> set (classList (heap s sl))
         else estyle (heap s sl) ''left'' = Some (Px (r_left (getElAbsolutePosition st t)))
              \<and> estyle (heap s sl) ''right'' = estyle (heap st sl) ''right''
              \<and> (''orient-slide--aligned-right'' \<in> set (classList (heap s sl))
                   \<longleftrightarrow> ''orient-slide--aligned-right'' \<in> set (classList (heap st sl))))
     \<and> estyle (heap s sl) ''top''
          = Some (Px (r_top (getElAbsolutePosition st t) + r_height (getElAbsolutePosition st t)))
     \<and> (box_left (heap st t) = 100 \<and> box_top (heap st t) = 50
          \<and> box_width (heap st t) = 80 \<and> box_height (heap st t) = 20 \<longrightarrow>
        (innerWidth st = 1200 \<longrightarrow>
           estyle (heap s sl) ''left'' = Some (Px 100) \<and> estyle (heap s sl) ''top'' = Some (Px 70)
           \<and> estyle (heap s sl) ''right'' = estyle (heap st sl) ''right'')
      \<and> (innerWidth st = 400 \<longrightarrow>
           estyle (heap s sl) ''right'' = Some (Px 220)
           \<and> ''orient-slide--aligned-right'' \<in> set (classList (heap s sl))))"
  unfolding positionSlide_resolved[OF assms]
  by (simp add: Let_def scrollTo_def emit_def getElAbsolutePosition_box)

text \<open>
  The two cases of the claim on the page with the heading at that box, in the state in
  which \<open>startFlow\<close> positions the first slide.
\<close>

theorem positionSlide_horizontal_witness:
  "observe (\<lambda>s. (estyle (heap s 1) ''left'', estyle (heap s 1) ''top''))
     (positionSlide (atPositioning (heroPage 1200 0 50)))
     = Inr (Some (Px 100), Some (Px 70))
   \<and> observe (\<lambda>s. (estyle (heap s 1) ''right'',
                    ''orient-slide--aligned-right'' \<in> set (classList (heap s 1))))
     (positionSlide (atPositioning (heroPage 400 0 50)))
     = Inr (Some (Px 220), True)"
proof -
  note A = atPositioning_heroPage[where W=1200 and X=0 and T=50]
  note B = atPositioning_heroPage[where W=400 and X=0 and T=50]
  have t: "target floatSlide = Some ''#hero''" "''#hero'' \<noteq> []"
    by (simp_all add: floatSlide_def)
  from positionSlide_horizontal[OF A(1) t A(3) A(2)] positionSlide_horizontal[OF B(1) t B(3) B(2)]
  show ?thesis
    by (auto simp: A B atPositioning_facts heroPage_facts heroEl_def observe_def
        getElAbsolutePosition_box)
qed

subsection \<open>Changing the flow URL (C8)\<close>

text \<open>
  Claim C8, as stated, fails: after \<open>start()\<close> and \<open>setFlowURL\<close> the slide list is still
  the flow that was loaded.
\<close>

theorem setFlowURL_discards_flow_counterexample:
  "observe flowData (thenDo (startFlow idlePage) (setFlowURL ''flows/other.json''))
     = Inr [floatSlide, modalSlide]"
proof -
  from startFlow_idlePage obtain w s where s: "startFlow idlePage = Inr s"
    "activeSlideEl s = Some w" "w \<in> set (bodyChildren s)" "flowData s = [floatSlide, modalSlide]"
    by blast
  then have "\<forall>w. activeSlideEl s = Some w \<longrightarrow> w \<in> set (bodyChildren s)" by simp
  from stopFlow_ok[OF this] s show ?thesis
    by (auto simp: setFlowURL_def observe_def)
qed

text \<open>
  Claim C8, amended. \<open>setFlowURL(newURL)\<close> stops the tour (the rendered slide leaves the
  body, index and element are unset, the key listener is removed) and sets the URL; the
  loaded slide list stays as it was.
\<close>

theorem setFlowURL_keeps_flowData:
  assumes "\<forall>w. activeSlideEl st = Some w \<longrightarrow> w \<in> set (bodyChildren st)"
  shows "\<exists>s. setFlowURL newURL st = Inr s \<and> flowURL s = newURL \<and> flowData s = flowData st
     \<and> activeSlideEl s = None \<and> activeSlideIndex s = None \<and> \<not> keydownBound s
     \<and> (\<forall>w. activeSlideEl st = Some w \<longrightarrow> w \<notin> set (bodyChildren s))"
proof -
  from stopFlow_ok[OF assms] obtain s where s: "stopFlow st = Inr s" "flowData s = flowData st"
    "activeSlideEl s = None" "activeSlideIndex s = None" "\<not> keydownBound s"
    "bodyChildren s = (case activeSlideEl st of None \<Rightarrow> bodyChildren st
                          | Some w \<Rightarrow> filter (\<lambda>x. x \<noteq> w) (bodyChildren st))" by blast
  then show ?thesis
    by (auto simp: setFlowURL_def)
qed

theorem setFlowURL_keeps_flowData_witness:
  "observe (\<lambda>s. (flowURL s, flowData s, activeSlideEl s, activeSlideIndex s))
     (thenDo (startFlow idlePage) (setFlowURL ''flows/other.json''))
     = Inr (''flows/other.json'', [floatSlide, modalSlide], None, None)"
proof -
  from startFlow_idlePage obtain w s where s: "startFlow idlePage = Inr s"
    "activeSlideEl s = Some w" "w \<in> set (bodyChildren s)" "flowData s = [floatSlide, modalSlide]"
    by blast
  then have "\<forall>w. activeSlideEl s = Some w \<longrightarrow> w \<in> set (bodyChildren s)" by simp
  from setFlowURL_keeps_flowData[OF this, of "''flows/other.json''"] s show ?thesis
    by (auto simp: observe_def)
qed

subsection \<open>Auto-scroll (C9)\<close>

text \<open>
  Claim C9, as stated, fails: the scroll call is \<open>window.scrollTo(0, y)\<close>. On a page
  that is scrolled 50 pixels sideways, positioning the slide moves the page back to the
  horizontal offset 0.
\<close>

theorem positionSlide_scrolls_to_origin_x_counterexample:
  "pageXOffset (atPositioning (heroPage 1200 50 900)) = 50
   \<and> observe pageXOffset (positionSlide (atPositioning (heroPage 1200 50 900))) = Inr 0
   \<and> observe trace (positionSlide (atPositioning (heroPage 1200 50 900)))
       = Inr [ScrollTo 0 520]"
proof -
  note A = atPositioning_heroPage[where W=1200 and X=50 and T=900]
  have t: "target floatSlide = Some ''#hero''" "''#hero'' \<noteq> []"
    by (simp_all add: floatSlide_def)
  show ?thesis
    unfolding positionSlide_resolved[OF A(1) t A(3) A(2)]
    by (simp add: A atPositioning_facts heroPage_facts Let_def observe_def scrollTo_def
        emit_def getElAbsolutePosition_box heroEl_def)
qed

text \<open>
  Claim C9, amended. With auto-scroll on, the page is scrolled to the vertical offset
  \<open>max 0 ((T + H) - V / 2)\<close> and to the horizontal offset 0, by one call
  \<open>scrollTo(0, y)\<close>: the horizontal offset is never computed from the target. With
  auto-scroll off the page is not scrolled.
\<close>

theorem positionSlide_autoScroll:
  assumes "currentSlide st = Some d" and "target d = Some sel" and "sel \<noteq> []"
    and "resolveTarget st sel = Inr (Some t)" and "slideEl st = Some sl"
  shows "\<exists>s. positionSlide st = Inr s
     \<and> (if autoScroll st
         then pageYOffset s
                = max 0 ((r_top (getElAbsolutePosition st t)
                           + r_height (getElAbsolutePosition st t)) - innerHeight st / 2)
              \<and> pageXOffset s = 0
              \<and> trace s = trace st
                   @ [ScrollTo 0
                        (max 0 ((r_top (getElAbsolutePosition st t)
                                  + r_height (getElAbsolutePosition st t))
                                - innerHeight st / 2))]
         else pageYOffset s = pageYOffset st \<and> pageXOffset s = pageXOffset st
              \<and> trace s = trace st)"
  unfolding positionSlide_resolved[OF assms]
  by (simp add: Let_def scrollTo_def emit_def)

theorem positionSlide_autoScroll_witness:
  "observe (\<lambda>s. (pageXOffset s, pageYOffset s, trace s))
     (positionSlide (atPositioning (heroPage 1200 0 900)))
     = Inr (0, 520, [ScrollTo 0 520])"
proof -
  note A = atPositioning_heroPage[where W=1200 and X=0 and T=900]
  have t: "target floatSlide = Some ''#hero''" "''#hero'' \<noteq> []"
    by (simp_all add: floatSlide_def)
  from positionSlide_autoScroll[OF A(1) t A(3) A(2)]
  show ?thesis
    by (auto simp: A atPositioning_facts heroPage_facts heroEl_def observe_def
        getElAbsolutePosition_box)
qed

subsection \<open>Jumping while idle (C10)\<close>

text \<open>
  Claim C10. With no slide rendered, \<open>jump(n)\<close> for an in-range \<open>n\<close> hands the empty
  \<open>activeSlideEl\<close> to \<open>document.body.removeChild\<close>, which raises a TypeError: this
  is so for any state without a rendered slide, and so for every state that \<open>stop()\<close>
  returns.
\<close>

theorem jumpToSlide_idle_raises:
  assumes "1 \<le> n" and "n \<le> int (length (flowData st))"
  shows "(activeSlideEl st = None \<longrightarrow>
            removeChild (activeSlideEl st) st = Inl TypeError
          \<and> jumpToSlide n st = Inl TypeError)
       \<and> (\<forall>s. stopFlow st = Inr s \<longrightarrow> jumpToSlide n s = Inl TypeError)"
proof (intro conjI impI allI)
  assume "activeSlideEl st = None"
  then show "removeChild (activeSlideEl st) st = Inl TypeError"
    by (simp add: removeChild_def)
  then show "jumpToSlide n st = Inl TypeError"
    using assms by (simp add: jumpToSlide_def)
next
  fix s assume "stopFlow st = Inr s"
  from stopFlow_idle[OF this] assms show "jumpToSlide n s = Inl TypeError"
    by (simp add: jumpToSlide_def removeChild_def)
qed

theorem jumpToSlide_idle_raises_witness:
  "jumpToSlide 2 idlePage = Inl TypeError \<and> stopFlow idlePage = Inr (idlePage\<lparr>keydownBound := False\<rparr>)"
proof -
  have a: "(1::int) \<le> 2" "2 \<le> int (length (flowData idlePage))" "activeSlideEl idlePage = None"
    by (simp_all add: idlePage_def)
  have b: "stopFlow idlePage = Inr (idlePage\<lparr>keydownBound := False\<rparr>)"
    by (simp add: stopFlow_def idlePage_def)
  from jumpToSlide_idle_raises[OF a(1,2)] a(3) b show ?thesis by simp
qed

end
